theory Spec2Isabelle
  imports Complex_Main "HOL-Library.Word"
begin

section \<open>Strings and numbers of the program\<close>

text \<open>
  The program is TypeScript. Its strings are sequences of UTF-16 code units, and
  \<^verbatim>\<open>String.prototype.includes\<close> compares code units, so a string is modelled as a
  list of 16-bit words. Every literal of the source is written out as its code units in
  source order. Its numbers are modelled as exact rationals: \<^verbatim>\<open>NaN\<close>, the infinities and
  binary rounding are outside the model.
\<close>

type_synonym jsstring = "16 word list"

fun startsWith :: "jsstring \<Rightarrow> jsstring \<Rightarrow> bool" where
  "startsWith s [] = True"
| "startsWith [] (k # ks) = False"
| "startsWith (c # cs) (k # ks) = (c = k \<and> startsWith cs ks)"

text \<open>\<^verbatim>\<open>title.includes(keyword)\<close>: the keyword occurs at some position of the title.\<close>

fun str_includes :: "jsstring \<Rightarrow> jsstring \<Rightarrow> bool" where
  "str_includes [] k = (k = [])"
| "str_includes (c # cs) k = (startsWith (c # cs) k \<or> str_includes cs k)"

section \<open>Heat-rise estimator\<close>

text \<open>
  \<^verbatim>\<open>calculateHeatRise\<close> draws \<^verbatim>\<open>Math.random()\<close>, a number in \<open>[0, 1)\<close>. The draw is
  the first argument of the model.
\<close>

definition percentage :: "rat \<Rightarrow> rat" where
  "percentage r = r * (7 / 100) + 1 / 100"

definition calculateHeatRise :: "rat \<Rightarrow> rat \<Rightarrow> int" where
  "calculateHeatRise r totalHotValue = \<lfloor>totalHotValue * percentage r\<rfloor>"

section \<open>Keyword classification\<close>

text \<open>
  \<^verbatim>\<open>KEYWORD_MAP\<close> in the order of its keys, which is the order
  \<^verbatim>\<open>Object.entries\<close> iterates in.
\<close>

definition KEYWORD_MAP :: "(jsstring \<times> jsstring list) list" where
  "KEYWORD_MAP =
   [
    ([0x5A31, 0x4E50, 0x7CBE, 0x9009],
     [[0x5267], [0x7535, 0x5F71], [0x660E, 0x661F], [0x6F14, 0x5458], [0x7EFC, 0x827A],
      [0x6F14, 0x5531, 0x4F1A], [0x6B4C], [0x821E], [0x7F51, 0x7EA2], [0x76F4, 0x64AD],
      [0x6E38, 0x620F], [0x7535, 0x7ADE], [0x738B, 0x8005], [0x539F, 0x795E],
      [0x5403, 0x9E21], [0x7B11], [0x6897], [0x74DC], [0x7206, 0x6599], [0x524D, 0x4EFB],
      [0x73B0, 0x4EFB]]),
    ([0x793E, 0x4F1A, 0x6C11, 0x751F],
     [[0x65B0, 0x95FB], [0x4E8B, 0x4EF6], [0x56DE, 0x5E94], [0x5B98, 0x65B9],
      [0x901A, 0x62A5], [0x653F, 0x7B56], [0x7ECF, 0x6D4E], [0x80A1, 0x5E02],
      [0x57FA, 0x91D1], [0x5DE5, 0x8D44], [0x62DB, 0x8058], [0x5DE5, 0x4F5C],
      [0x804C, 0x573A], [0x6559, 0x80B2], [0x5B66, 0x6821], [0x8003, 0x8BD5],
      [0x5386, 0x53F2], [0x6587, 0x5316], [0x519C, 0x4E1A], [0x519C, 0x6751]]),
    ([0x79D1, 0x6280, 0x6570, 0x7801],
     [[0x0041, 0x0049], [0x4EBA, 0x5DE5, 0x667A, 0x80FD], [0x624B, 0x673A],
      [0x82F9, 0x679C], [0x534E, 0x4E3A], [0x5C0F, 0x7C73], [0x7535, 0x8111],
      [0x6C7D, 0x8F66], [0x65B0, 0x80FD, 0x6E90], [0x9A7E, 0x9A76], [0x822A, 0x5929],
      [0x79D1, 0x5B66], [0x6280, 0x672F], [0x53D1, 0x660E], [0x672A, 0x6765]]),
    ([0x65F6, 0x5C1A, 0x751F, 0x6D3B],
     [[0x7A7F, 0x642D], [0x5986], [0x62A4, 0x80A4], [0x53E3, 0x7EA2], [0x5305, 0x5305],
      [0x5962, 0x4F88, 0x54C1], [0x88C5, 0x4FEE], [0x5BB6, 0x5C45], [0x8BBE, 0x8BA1],
      [0x6539, 0x9020], [0x65C5, 0x6E38], [0x666F, 0x70B9], [0x6253, 0x5361],
      [0x62CD, 0x7167], [0x6444, 0x5F71]]),
    ([0x60C5, 0x611F, 0x65E5, 0x5E38],
     [[0x732B], [0x72D7], [0x5BA0], [0x5A03], [0x5B9D, 0x5B9D], [0x8001, 0x516C],
      [0x8001, 0x5A46], [0x7537, 0x53CB], [0x5973, 0x53CB], [0x604B, 0x7231],
      [0x5206, 0x624B], [0x7ED3, 0x5A5A], [0x79BB, 0x5A5A],
      [0x0056, 0x006C, 0x006F, 0x0067], [0x65E5, 0x5E38], [0x8BB0, 0x5F55],
      [0x611F, 0x4EBA], [0x6CEA, 0x76EE]]),
    ([0x5174, 0x8DA3, 0x5782, 0x7C7B],
     [[0x5403], [0x7F8E, 0x98DF], [0x83DC], [0x996D], [0x70F9, 0x996A], [0x5065, 0x8EAB],
      [0x51CF, 0x80A5], [0x8FD0, 0x52A8], [0x745C, 0x4F3D], [0x8DD1, 0x6B65],
      [0x517B, 0x751F], [0x5065, 0x5EB7], [0x75C5], [0x533B]])
   ]"

text \<open>\<^verbatim>\<open>CATEGORIES\<close> of \<^verbatim>\<open>types.ts\<close>, the enumerated category set.\<close>

definition CATEGORIES :: "jsstring list" where
  "CATEGORIES =
   [[0x793E, 0x4F1A, 0x6C11, 0x751F],
    [0x5A31, 0x4E50, 0x7CBE, 0x9009],
    [0x79D1, 0x6280, 0x6570, 0x7801],
    [0x65F6, 0x5C1A, 0x751F, 0x6D3B],
    [0x60C5, 0x611F, 0x65E5, 0x5E38],
    [0x5174, 0x8DA3, 0x5782, 0x7C7B]]"

text \<open>The fallback category the loop starts from.\<close>

definition default_category :: jsstring where
  "default_category = [0x793E, 0x4F1A, 0x6C11, 0x751F]"

text \<open>The inner loop: one point for each keyword the title includes.\<close>

definition keyword_score :: "jsstring \<Rightarrow> jsstring list \<Rightarrow> nat" where
  "keyword_score title keywords =
     fold (\<lambda>keyword score. if str_includes title keyword then score + 1 else score) keywords 0"

text \<open>The outer loop body, on the pair \<open>(maxScore, bestCategory)\<close>.\<close>

definition category_step ::
  "jsstring \<Rightarrow> jsstring \<times> jsstring list \<Rightarrow> nat \<times> jsstring \<Rightarrow> nat \<times> jsstring" where
  "category_step title entry acc =
     (let score = keyword_score title (snd entry)
      in if score > fst acc then (score, fst entry) else acc)"

definition determineCategory :: "jsstring \<Rightarrow> jsstring" where
  "determineCategory title = snd (fold (category_step title) KEYWORD_MAP (0, default_category))"

section \<open>Data model\<close>

text \<open>The interfaces of \<^verbatim>\<open>types.ts\<close>. An optional field is an \<open>option\<close>.\<close>

record TrendItem =
  rank :: rat
  title :: jsstring
  hotValue :: rat
  category :: jsstring
  heatRise :: "int option"
  description :: "jsstring option"

record labelled =
  label :: jsstring
  analysis :: jsstring

text \<open>The field \<^verbatim>\<open>keywords\<close> is named \<open>keywords'\<close>, as \<open>keywords\<close> is reserved.\<close>

record GeneMapAnalysis =
  viralityScore :: rat
  sentiment :: labelled
  domain :: labelled
  contentForm :: labelled
  lifecycle :: labelled
  keywords' :: "jsstring list"

text \<open>\<^verbatim>\<open>BigEvent\<close>; its \<^verbatim>\<open>title\<close> is named \<open>event_title\<close> beside the one of \<open>TrendItem\<close>.\<close>

record BigEvent =
  event_title :: jsstring
  reason :: jsstring
  durationLabel :: jsstring

record token_usage =
  total_tokens :: int
  prompt_tokens :: int
  completion_tokens :: int

record 'a AIResponse =
  data :: 'a
  usage :: "token_usage option"

text \<open>The payload \<^verbatim>\<open>{ events: BigEvent[] }\<close> of event detection; the field may be missing.\<close>

record events_data =
  events :: "BigEvent list option"

text \<open>
  \<^verbatim>\<open>JSON.parse\<close> also returns \<^verbatim>\<open>null\<close>, for the text \<^verbatim>\<open>null\<close>, and the
  program casts what it returns without a check. Where the program goes on to read a
  property of the payload, the model keeps the two apart.
\<close>

datatype 'a nullable = Null | Value 'a

section \<open>Errors and the browser's storage\<close>

text \<open>
  A thrown value is an \<^verbatim>\<open>Error\<close> with its message, or one of the errors the runtime
  raises itself: a \<^verbatim>\<open>TypeError\<close> (a rejected \<^verbatim>\<open>fetch\<close>, a property read on
  \<^verbatim>\<open>undefined\<close>, a call of something that is no function) or a \<^verbatim>\<open>SyntaxError\<close>
  (text that is not JSON). The program tells errors apart by comparing the message
  with \<^verbatim>\<open>"MISSING_API_KEY"\<close>; the runtime's own messages never are that literal.
\<close>

datatype js_error = Error jsstring | TypeError | SyntaxError

text \<open>The literal \<^verbatim>\<open>"MISSING_API_KEY"\<close>.\<close>

definition MISSING_API_KEY :: jsstring where
  "MISSING_API_KEY =
     [0x004D, 0x0049, 0x0053, 0x0053, 0x0049, 0x004E, 0x0047, 0x005F, 0x0041, 0x0050,
      0x0049, 0x005F, 0x004B, 0x0045, 0x0059]"

definition is_missing_key :: "js_error \<Rightarrow> bool" where
  "is_missing_key error = (case error of Error message \<Rightarrow> message = MISSING_API_KEY | _ \<Rightarrow> False)"

text \<open>\<^verbatim>\<open>localStorage\<close>: \<^verbatim>\<open>getItem\<close> of a missing key is \<^verbatim>\<open>null\<close>, here \<open>None\<close>.\<close>

type_synonym local_storage = "jsstring \<rightharpoonup> jsstring"

text \<open>The literal \<^verbatim>\<open>'deepseek_api_key'\<close>.\<close>

definition API_KEY_STORAGE_KEY :: jsstring where
  "API_KEY_STORAGE_KEY =
     [0x0064, 0x0065, 0x0065, 0x0070, 0x0073, 0x0065, 0x0065, 0x006B, 0x005F, 0x0061,
      0x0070, 0x0069, 0x005F, 0x006B, 0x0065, 0x0079]"

definition getApiKey :: "local_storage \<Rightarrow> jsstring option" where
  "getApiKey storage = storage API_KEY_STORAGE_KEY"

definition setApiKey :: "jsstring \<Rightarrow> local_storage \<Rightarrow> local_storage" where
  "setApiKey key storage = storage(API_KEY_STORAGE_KEY \<mapsto> key)"

section \<open>The completion client\<close>

text \<open>
  What the completion service does with one request is an input of the model: the
  \<^verbatim>\<open>fetch\<close> rejects; the status is not ok, with the message of the error body (if it
  has one and it is not empty) and the status text; the status is not ok and the body is
  the JSON \<^verbatim>\<open>null\<close>, so that reading \<^verbatim>\<open>errorData.error\<close> throws; the body of an ok
  answer is not JSON; it has no \<^verbatim>\<open>choices[0].message.content\<close>; or a completion
  arrives with its content and usage. The prompts only go out to the service and are not
  modelled.
\<close>

datatype llm_reply =
    Fetch_rejected
  | Http_error "jsstring option" jsstring
  | Http_error_null
  | Body_invalid
  | Body_no_choice
  | Completion jsstring "token_usage option"

text \<open>The literal \<^verbatim>\<open>"DeepSeek API Error: "\<close>.\<close>

definition api_error_prefix :: jsstring where
  "api_error_prefix =
     [0x0044, 0x0065, 0x0065, 0x0070, 0x0053, 0x0065, 0x0065, 0x006B, 0x0020, 0x0041,
      0x0050, 0x0049, 0x0020, 0x0045, 0x0072, 0x0072, 0x006F, 0x0072, 0x003A, 0x0020]"

text \<open>The result pair is \<^verbatim>\<open>{ content, usage }\<close>. An empty key is falsy, like a missing one.\<close>

definition callDeepSeek ::
  "local_storage \<Rightarrow> llm_reply \<Rightarrow> js_error + (jsstring \<times> token_usage option)" where
  "callDeepSeek storage reply =
     (let apiKey = getApiKey storage
      in if apiKey = None \<or> apiKey = Some [] then Inl (Error MISSING_API_KEY)
         else case reply of
           Fetch_rejected \<Rightarrow> Inl TypeError
         | Http_error message statusText \<Rightarrow>
             Inl (Error (case message of
                           Some m \<Rightarrow> if m \<noteq> [] then m else api_error_prefix @ statusText
                         | None \<Rightarrow> api_error_prefix @ statusText))
         | Http_error_null \<Rightarrow> Inl TypeError
         | Body_invalid \<Rightarrow> Inl SyntaxError
         | Body_no_choice \<Rightarrow> Inl TypeError
         | Completion content tokens \<Rightarrow> Inr (content, tokens))"

section \<open>The trend source chain\<close>

text \<open>
  An entry of the \<^verbatim>\<open>word_list\<close> a trend source returns. Each field may be missing.
\<close>

record raw_entry =
  word :: "jsstring option"
  hot_value :: "rat option"
  position :: "rat option"

text \<open>
  The callback of \<^verbatim>\<open>list.map\<close> in \<^verbatim>\<open>parseDouyinData\<close>, given the draw of
  \<^verbatim>\<open>Math.random\<close> it makes (primed names are the callback's locals). A missing
  \<^verbatim>\<open>word\<close> makes
  \<^verbatim>\<open>title.includes\<close> in \<^verbatim>\<open>determineCategory\<close> throw.
\<close>

definition normalize_entry :: "rat \<Rightarrow> nat \<Rightarrow> raw_entry \<Rightarrow> js_error + TrendItem" where
  "normalize_entry r index item =
     (let hotValue' = (case hot_value item of Some v \<Rightarrow> if v \<noteq> 0 then v else 0 | None \<Rightarrow> 0);
          rank' = (case position item of
                     Some p \<Rightarrow> if p \<noteq> 0 \<and> p > 0 then p else of_nat index + 1
                   | None \<Rightarrow> of_nat index + 1)
      in case word item of
           None \<Rightarrow> Inl TypeError
         | Some title' \<Rightarrow>
             Inr \<lparr>rank = rank', title = title', hotValue = hotValue',
                  category = determineCategory title',
                  heatRise = Some (calculateHeatRise r hotValue'),
                  description = Some []\<rparr>)"

text \<open>
  \<^verbatim>\<open>list.map\<close> from index \<open>index\<close> on; the first throwing callback ends it. The draw
  of the item at index \<open>i\<close> is \<open>rnd i\<close>.
\<close>

fun map_entries :: "(nat \<Rightarrow> rat) \<Rightarrow> nat \<Rightarrow> raw_entry list \<Rightarrow> js_error + TrendItem list" where
  "map_entries rnd index [] = Inr []"
| "map_entries rnd index (item # rest) =
     (case normalize_entry (rnd index) index item of
        Inl e \<Rightarrow> Inl e
      | Inr t \<Rightarrow>
          (case map_entries rnd (index + 1) rest of
             Inl e \<Rightarrow> Inl e
           | Inr ts \<Rightarrow> Inr (t # ts)))"

definition parseDouyinData :: "(nat \<Rightarrow> rat) \<Rightarrow> raw_entry list \<Rightarrow> js_error + TrendItem list" where
  "parseDouyinData rnd list =
     (case map_entries rnd 0 list of Inl e \<Rightarrow> Inl e | Inr items \<Rightarrow> Inr (take 51 items))"

text \<open>
  What \<^verbatim>\<open>JSON.parse\<close> of the generated content is to \<^verbatim>\<open>fetchSimulatedTrends\<close>:
  a value with no (or a falsy) \<^verbatim>\<open>trends\<close>; a value on which \<^verbatim>\<open>parsed.trends\<close> or
  its \<^verbatim>\<open>map\<close> throws; or a list of items in the format the prompt asks for.
\<close>

datatype trends_json = No_trends | Trends_unusable | Trends "TrendItem list"

text \<open>
  The texts of the two placeholder items. The first title says that fetching the data
  failed and asks to check the network; its description says that the source cannot be
  reached and that DeepSeek is not configured. The second title says that the connection to
  the DeepSeek API failed; its description asks to configure the API key in the settings.
\<close>

definition network_failure_title :: jsstring where
  "network_failure_title =
     [0x83B7, 0x53D6, 0x6570, 0x636E, 0x5931, 0x8D25, 0x0020, 0x002D, 0x0020, 0x8BF7,
      0x68C0, 0x67E5, 0x7F51, 0x7EDC]"

definition network_failure_description :: jsstring where
  "network_failure_description =
     [0x65E0, 0x6CD5, 0x8FDE, 0x63A5, 0x5230, 0x6296, 0x97F3, 0x0020, 0x0041, 0x0050,
      0x0049, 0x0020, 0x4E14, 0x0020, 0x0044, 0x0065, 0x0065, 0x0070, 0x0053, 0x0065,
      0x0065, 0x006B, 0x0020, 0x672A, 0x914D, 0x7F6E]"

definition missing_key_title :: jsstring where
  "missing_key_title =
     [0x0044, 0x0065, 0x0065, 0x0070, 0x0053, 0x0065, 0x0065, 0x006B, 0x0020, 0x0041,
      0x0050, 0x0049, 0x0020, 0x8FDE, 0x63A5, 0x5931, 0x8D25]"

definition missing_key_description :: jsstring where
  "missing_key_description =
     [0x8BF7, 0x5728, 0x8BBE, 0x7F6E, 0x4E2D, 0x914D, 0x7F6E, 0x60A8, 0x7684, 0x0020,
      0x0044, 0x0065, 0x0065, 0x0070, 0x0053, 0x0065, 0x0065, 0x006B, 0x0020, 0x0041,
      0x0050, 0x0049, 0x0020, 0x004B, 0x0065, 0x0079, 0x0020, 0x4EE5, 0x542F, 0x7528,
      0x6A21, 0x62DF, 0x6570, 0x636E, 0x3002]"

definition placeholder_trends :: "TrendItem list" where
  "placeholder_trends =
     [\<lparr>rank = 1, title = network_failure_title, hotValue = 0,
       category = [0x793E, 0x4F1A, 0x6C11, 0x751F], heatRise = Some 0,
       description = Some network_failure_description\<rparr>,
      \<lparr>rank = 2, title = missing_key_title, hotValue = 12500000,
       category = [0x79D1, 0x6280, 0x6570, 0x7801], heatRise = Some 890000,
       description = Some missing_key_description\<rparr>]"

text \<open>The \<^verbatim>\<open>try\<close> block of \<^verbatim>\<open>fetchSimulatedTrends\<close>. \<open>parse\<close> is \<^verbatim>\<open>JSON.parse\<close>.\<close>

definition simulated_attempt ::
  "(jsstring \<Rightarrow> trends_json option) \<Rightarrow> local_storage \<Rightarrow> llm_reply \<Rightarrow> (nat \<Rightarrow> rat)
     \<Rightarrow> js_error + TrendItem list" where
  "simulated_attempt parse storage reply rnd =
     (case callDeepSeek storage reply of
        Inl e \<Rightarrow> Inl e
      | Inr result \<Rightarrow>
          (case parse (fst result) of
             None \<Rightarrow> Inl SyntaxError
           | Some No_trends \<Rightarrow> Inr []
           | Some Trends_unusable \<Rightarrow> Inl TypeError
           | Some (Trends ts) \<Rightarrow>
               Inr (map (\<lambda>(i, t). t\<lparr>heatRise := Some (calculateHeatRise (rnd i) (hotValue t))\<rparr>)
                      (enumerate 0 ts))))"

definition fetchSimulatedTrends ::
  "(jsstring \<Rightarrow> trends_json option) \<Rightarrow> local_storage \<Rightarrow> llm_reply \<Rightarrow> (nat \<Rightarrow> rat)
     \<Rightarrow> js_error + TrendItem list" where
  "fetchSimulatedTrends parse storage reply rnd =
     (case simulated_attempt parse storage reply rnd of
        Inr items \<Rightarrow> Inr items
      | Inl error \<Rightarrow> Inr placeholder_trends)"

text \<open>
  What a trend source does with the request: the \<^verbatim>\<open>fetch\<close> rejects, the status is not
  ok, the body is not JSON, or the body is JSON. Of a JSON body the model keeps the
  \<^verbatim>\<open>word_list\<close> at the expected path: \<open>None\<close> when the path is missing or falsy, or
  when what stands there is no array (so that \<^verbatim>\<open>list.map\<close> throws).
\<close>

datatype source_reply =
    Source_rejected
  | Source_not_ok
  | Source_invalid
  | Source_json "raw_entry list option"

text \<open>
  Everything outside the program that one run of \<^verbatim>\<open>fetchTrends\<close> meets: the two
  sources, the storage holding the API key, the completion service, and the draws of
  \<^verbatim>\<open>Math.random\<close> while each list is mapped.
\<close>

record trend_env =
  primary :: source_reply
  backup :: source_reply
  localStorage :: local_storage
  deepseek :: llm_reply
  rnd_primary :: "nat \<Rightarrow> rat"
  rnd_backup :: "nat \<Rightarrow> rat"
  rnd_simulated :: "nat \<Rightarrow> rat"

text \<open>
  The messages \<^verbatim>\<open>'Primary API network error'\<close>, \<^verbatim>\<open>'Primary API invalid format'\<close>
  and \<^verbatim>\<open>'Backup API network error'\<close>.
\<close>

definition primary_network_error :: jsstring where
  "primary_network_error =
     [0x0050, 0x0072, 0x0069, 0x006D, 0x0061, 0x0072, 0x0079, 0x0020, 0x0041, 0x0050,
      0x0049, 0x0020, 0x006E, 0x0065, 0x0074, 0x0077, 0x006F, 0x0072, 0x006B, 0x0020,
      0x0065, 0x0072, 0x0072, 0x006F, 0x0072]"

definition primary_invalid_format :: jsstring where
  "primary_invalid_format =
     [0x0050, 0x0072, 0x0069, 0x006D, 0x0061, 0x0072, 0x0079, 0x0020, 0x0041, 0x0050,
      0x0049, 0x0020, 0x0069, 0x006E, 0x0076, 0x0061, 0x006C, 0x0069, 0x0064, 0x0020,
      0x0066, 0x006F, 0x0072, 0x006D, 0x0061, 0x0074]"

definition backup_network_error :: jsstring where
  "backup_network_error =
     [0x0042, 0x0061, 0x0063, 0x006B, 0x0075, 0x0070, 0x0020, 0x0041, 0x0050, 0x0049,
      0x0020, 0x006E, 0x0065, 0x0074, 0x0077, 0x006F, 0x0072, 0x006B, 0x0020, 0x0065,
      0x0072, 0x0072, 0x006F, 0x0072]"

text \<open>The outer \<^verbatim>\<open>try\<close> block of \<^verbatim>\<open>fetchTrends\<close>.\<close>

definition primary_attempt :: "trend_env \<Rightarrow> js_error + TrendItem list" where
  "primary_attempt env =
     (case primary env of
        Source_rejected \<Rightarrow> Inl TypeError
      | Source_not_ok \<Rightarrow> Inl (Error primary_network_error)
      | Source_invalid \<Rightarrow> Inl SyntaxError
      | Source_json None \<Rightarrow> Inl (Error primary_invalid_format)
      | Source_json (Some word_list) \<Rightarrow> parseDouyinData (rnd_primary env) word_list)"

text \<open>
  The inner \<^verbatim>\<open>try\<close> block: \<open>Inr None\<close> when it ends without a \<^verbatim>\<open>return\<close>.
\<close>

definition backup_attempt :: "trend_env \<Rightarrow> js_error + TrendItem list option" where
  "backup_attempt env =
     (case backup env of
        Source_rejected \<Rightarrow> Inl TypeError
      | Source_not_ok \<Rightarrow> Inl (Error backup_network_error)
      | Source_invalid \<Rightarrow> Inl SyntaxError
      | Source_json None \<Rightarrow> Inr None
      | Source_json (Some word_list) \<Rightarrow>
          (case parseDouyinData (rnd_backup env) word_list of
             Inl e \<Rightarrow> Inl e
           | Inr items \<Rightarrow> Inr (Some items)))"

definition fetchTrends ::
  "(jsstring \<Rightarrow> trends_json option) \<Rightarrow> trend_env \<Rightarrow> js_error + TrendItem list" where
  "fetchTrends parse env =
     (case primary_attempt env of
        Inr items \<Rightarrow> Inr items
      | Inl primaryError \<Rightarrow>
          (case backup_attempt env of
             Inr (Some items) \<Rightarrow> Inr items
           | Inr None \<Rightarrow>
               fetchSimulatedTrends parse (localStorage env) (deepseek env) (rnd_simulated env)
           | Inl backupError \<Rightarrow>
               fetchSimulatedTrends parse (localStorage env) (deepseek env) (rnd_simulated env)))"

section \<open>The analysis client\<close>

text \<open>
  The \<^verbatim>\<open>try\<close> block the three analysis functions share: the completion call, then
  \<^verbatim>\<open>JSON.parse\<close> of its content (the argument \<open>parse\<close>, \<open>None\<close> when it throws),
  with the usage passed on.
\<close>

definition completion_attempt ::
  "(jsstring \<Rightarrow> 'a option) \<Rightarrow> local_storage \<Rightarrow> llm_reply \<Rightarrow> js_error + 'a AIResponse" where
  "completion_attempt parse storage reply =
     (case callDeepSeek storage reply of
        Inl e \<Rightarrow> Inl e
      | Inr result \<Rightarrow>
          (case parse (fst result) of
             None \<Rightarrow> Inl SyntaxError
           | Some parsed \<Rightarrow> Inr \<lparr>data = parsed, usage = snd result\<rparr>))"

text \<open>
  The label U+672A U+77E5 ("unknown") and the analysis text ("the analysis service is not
  available for now") of the fallback record.
\<close>

definition unknown_label :: jsstring where
  "unknown_label = [0x672A, 0x77E5]"

definition service_unavailable :: jsstring where
  "service_unavailable = [0x5206, 0x6790, 0x670D, 0x52A1, 0x6682, 0x4E0D, 0x53EF, 0x7528]"

definition fallback_analysis :: GeneMapAnalysis where
  "fallback_analysis =
     \<lparr>viralityScore = 0,
      sentiment = \<lparr>label = unknown_label, analysis = service_unavailable\<rparr>,
      domain = \<lparr>label = unknown_label, analysis = service_unavailable\<rparr>,
      contentForm = \<lparr>label = unknown_label, analysis = service_unavailable\<rparr>,
      lifecycle = \<lparr>label = unknown_label, analysis = service_unavailable\<rparr>,
      keywords' = [[0x9519, 0x8BEF], [0x914D, 0x7F6E], [0x0041, 0x0050, 0x0049]]\<rparr>"

definition analyzeTrendWithAI ::
  "(jsstring \<Rightarrow> GeneMapAnalysis option) \<Rightarrow> local_storage \<Rightarrow> llm_reply \<Rightarrow> jsstring
     \<Rightarrow> js_error + GeneMapAnalysis AIResponse" where
  "analyzeTrendWithAI parse storage reply trendTitle =
     (case completion_attempt parse storage reply of
        Inr response \<Rightarrow> Inr response
      | Inl error \<Rightarrow>
          if is_missing_key error then Inl error
          else Inr \<lparr>data = fallback_analysis, usage = None\<rparr>)"

text \<open>The message \<^verbatim>\<open>"Analysis failed"\<close>.\<close>

definition analysis_failed :: jsstring where
  "analysis_failed =
     [0x0041, 0x006E, 0x0061, 0x006C, 0x0079, 0x0073, 0x0069, 0x0073, 0x0020, 0x0066,
      0x0061, 0x0069, 0x006C, 0x0065, 0x0064]"

text \<open>The payload type is left open: the function passes on what \<open>parse\<close> returns.\<close>

definition analyzeGlobalTrends ::
  "(jsstring \<Rightarrow> 'a option) \<Rightarrow> local_storage \<Rightarrow> llm_reply \<Rightarrow> TrendItem list
     \<Rightarrow> js_error + 'a AIResponse" where
  "analyzeGlobalTrends parse storage reply trends' =
     (case completion_attempt parse storage reply of
        Inr response \<Rightarrow> Inr response
      | Inl error \<Rightarrow>
          if is_missing_key error then Inl error
          else Inl (Error analysis_failed))"

definition identifyBigEvents ::
  "(jsstring \<Rightarrow> events_data nullable option) \<Rightarrow> local_storage \<Rightarrow> llm_reply
     \<Rightarrow> TrendItem list \<Rightarrow> js_error + events_data nullable AIResponse" where
  "identifyBigEvents parse storage reply trends' =
     (case completion_attempt parse storage reply of
        Inr response \<Rightarrow> Inr response
      | Inl error \<Rightarrow>
          if is_missing_key error then Inl error
          else Inr \<lparr>data = Value \<lparr>events = Some []\<rparr>, usage = None\<rparr>)"

section \<open>The application component\<close>

text \<open>
  The state of \<^verbatim>\<open>App\<close> that the refresh and the aggregate analysis touch. Two
  fields are not in the source and only count: \<open>in_flight\<close> is the number of calls of
  \<^verbatim>\<open>fetchTrends\<close> that have not settled, \<open>alerts\<close> the number of \<^verbatim>\<open>alert\<close> boxes
  shown.
\<close>

record app_state =
  trends :: "TrendItem list"
  loading :: bool
  refreshing :: bool
  globalAnalysis :: "GeneMapAnalysis option"
  bigEvents :: "BigEvent list"
  analyzingGlobal :: bool
  tokenUsage :: int
  showKeyUpdatePrompt :: bool
  in_flight :: nat
  alerts :: nat

text \<open>The state of the first render: the arguments of the \<^verbatim>\<open>useState\<close> calls.\<close>

definition initial_state :: app_state where
  "initial_state =
     \<lparr>trends = [], loading = True, refreshing = False, globalAnalysis = None, bigEvents = [],
      analyzingGlobal = False, tokenUsage = 0, showKeyUpdatePrompt = False,
      in_flight = 0, alerts = 0\<rparr>"

subsection \<open>Refreshing the trend list\<close>

text \<open>
  \<^verbatim>\<open>loadTrends\<close> is a function of the component body, so every render makes a new one,
  and each reads the \<^verbatim>\<open>refreshing\<close> of the render that made it. That value is the
  first argument here. The part up to \<^verbatim>\<open>await fetchTrends()\<close> runs at once.
\<close>

definition loadTrends_begin :: "bool \<Rightarrow> bool \<Rightarrow> app_state \<Rightarrow> app_state" where
  "loadTrends_begin seen_refreshing showSkeleton st =
     (if seen_refreshing then st
      else st\<lparr>refreshing := True,
              loading := (if showSkeleton then True else loading st),
              in_flight := in_flight st + 1\<rparr>)"

text \<open>The rest runs when the call of \<^verbatim>\<open>fetchTrends\<close> settles, with its outcome.\<close>

definition loadTrends_settle :: "js_error + TrendItem list \<Rightarrow> app_state \<Rightarrow> app_state" where
  "loadTrends_settle outcome st =
     (case outcome of Inr fetched \<Rightarrow> st\<lparr>trends := fetched\<rparr> | Inl e \<Rightarrow> st)
       \<lparr>loading := False, refreshing := False, in_flight := in_flight st - 1\<rparr>"

text \<open>
  What can happen to the component. The mount effect and the interval timer are set up by
  effects with an empty dependency list, so both call the \<^verbatim>\<open>loadTrends\<close> of the first
  render, which saw \<^verbatim>\<open>refreshing = false\<close>. The refresh button calls the one of the
  latest render and is disabled while \<^verbatim>\<open>refreshing\<close> holds. A pending call settles.
\<close>

datatype app_event = Mount | Tick | Click | Settle "js_error + TrendItem list"

fun app_step :: "app_event \<Rightarrow> app_state \<Rightarrow> app_state" where
  "app_step Mount st = loadTrends_begin (refreshing initial_state) True st"
| "app_step Tick st = loadTrends_begin (refreshing initial_state) False st"
| "app_step Click st = (if refreshing st then st else loadTrends_begin (refreshing st) False st)"
| "app_step (Settle outcome) st = (if in_flight st = 0 then st else loadTrends_settle outcome st)"

text \<open>A run: the events in the order they happen.\<close>

definition app_run :: "app_event list \<Rightarrow> app_state \<Rightarrow> app_state" where
  "app_run evs st = fold app_step evs st"

subsection \<open>The aggregate analysis\<close>




section \<open>The analysis modal and its cache\<close>

text \<open>The prefix \<^verbatim>\<open>analysis_cache_\<close> of a cache key.\<close>

definition cache_prefix :: jsstring where
  "cache_prefix =
     [0x0061, 0x006E, 0x0061, 0x006C, 0x0079, 0x0073, 0x0069, 0x0073, 0x005F, 0x0063,
      0x0061, 0x0063, 0x0068, 0x0065, 0x005F]"

definition cacheKey :: "jsstring \<Rightarrow> jsstring" where
  "cacheKey trend_title = cache_prefix @ trend_title"

text \<open>
  The block \<^emph>\<open>1. Try Cache\<close> of the effect: the cached analysis if there is one,
  and the storage afterwards. An empty string is falsy, so the block is skipped for it.
  \<open>parse\<close> is \<^verbatim>\<open>JSON.parse\<close>, \<open>None\<close> when it throws.
\<close>

definition cache_get ::
  "(jsstring \<Rightarrow> 'a option) \<Rightarrow> jsstring \<Rightarrow> local_storage \<Rightarrow> 'a option \<times> local_storage" where
  "cache_get parse trend_title storage =
     (case storage (cacheKey trend_title) of
        None \<Rightarrow> (None, storage)
      | Some cachedData \<Rightarrow>
          if cachedData = [] then (None, storage)
          else (case parse cachedData of
                  Some parsed \<Rightarrow> (Some parsed, storage)
                | None \<Rightarrow> (None, storage(cacheKey trend_title := None))))"

text \<open>The statement \<^emph>\<open>Save to cache\<close>. \<open>stringify\<close> is \<^verbatim>\<open>JSON.stringify\<close>.\<close>

definition cache_put ::
  "('a \<Rightarrow> jsstring) \<Rightarrow> jsstring \<Rightarrow> 'a \<Rightarrow> local_storage \<Rightarrow> local_storage" where
  "cache_put stringify trend_title a storage = storage(cacheKey trend_title \<mapsto> stringify a)"

text \<open>
  The call of \<^verbatim>\<open>analyzeTrendWithAI\<close> is asynchronous: the effect returns while the call
  is pending, and the handlers \<^verbatim>\<open>then\<close>, \<^verbatim>\<open>catch\<close> and \<^verbatim>\<open>finally\<close> run when it
  settles, whatever has happened in between. A pending call is kept with what its handlers
  and its outcome depend on: the title the effect took the cache key from, the storage as
  it was when the call was made (\<^verbatim>\<open>callDeepSeek\<close> reads the API key then, before its
  first \<^verbatim>\<open>await\<close>), and whether the modal that made the call is still mounted.
\<close>

record pending_call =
  call_title :: jsstring
  call_storage :: local_storage
  call_live :: bool

text \<open>
  The state of \<^verbatim>\<open>AnalysisModal\<close>, the storage it works on and the calls that have not
  settled yet, oldest first. \<open>analysis_calls\<close> is not in the source: it counts the calls
  of \<^verbatim>\<open>analyzeTrendWithAI\<close>.
\<close>

record modal_state =
  modal_storage :: local_storage
  modal_analysis :: "GeneMapAnalysis option"
  modal_loading :: bool
  modal_error :: "jsstring option"
  pending_calls :: "pending_call list"
  analysis_calls :: nat

text \<open>
  The two values of \<^verbatim>\<open>error\<close>: \<^verbatim>\<open>"MISSING_KEY"\<close>, and the notice that DeepSeek is
  not available at present.
\<close>

definition MISSING_KEY :: jsstring where
  "MISSING_KEY =
     [0x004D, 0x0049, 0x0053, 0x0053, 0x0049, 0x004E, 0x0047, 0x005F, 0x004B, 0x0045,
      0x0059]"

definition unavailable_notice :: jsstring where
  "unavailable_notice =
     [0x0044, 0x0065, 0x0065, 0x0070, 0x0053, 0x0065, 0x0065, 0x006B, 0x0020, 0x76EE,
      0x524D, 0x4E0D, 0x53EF, 0x7528]"

text \<open>
  The effect of the modal for a value of \<^verbatim>\<open>trend\<close> that is not \<^verbatim>\<open>null\<close>, up to the
  point where it returns: the state is reset, the cache is tried, and on a miss the call
  is made.
\<close>

definition effect_begin ::
  "(jsstring \<Rightarrow> GeneMapAnalysis option) \<Rightarrow> TrendItem \<Rightarrow> modal_state \<Rightarrow> modal_state" where
  "effect_begin parse trend st =
     (case cache_get parse (title trend) (modal_storage st) of
        (Some parsed, storage') \<Rightarrow>
          st\<lparr>modal_storage := storage', modal_analysis := Some parsed,
              modal_loading := False, modal_error := None\<rparr>
      | (None, storage') \<Rightarrow>
          st\<lparr>modal_storage := storage', modal_analysis := None,
              modal_loading := True, modal_error := None,
              pending_calls := pending_calls st
                @ [\<lparr>call_title = title trend, call_storage = storage', call_live = True\<rparr>],
              analysis_calls := analysis_calls st + 1\<rparr>)"

text \<open>
  The handlers of a call that settles, for the given reply of the service. The state
  updates have an effect only while the modal that made the call is mounted. The cache is
  written under the call's own key in either case: the effect has no cleanup, and the
  handler does not look at what the storage holds by then.
\<close>

definition effect_settle ::
  "(jsstring \<Rightarrow> GeneMapAnalysis option) \<Rightarrow> (GeneMapAnalysis \<Rightarrow> jsstring) \<Rightarrow> llm_reply
     \<Rightarrow> pending_call \<Rightarrow> modal_state \<Rightarrow> modal_state" where
  "effect_settle parse stringify reply call st =
     (case analyzeTrendWithAI parse (call_storage call) reply (call_title call) of
        Inr response \<Rightarrow>
          (if call_live call
           then st\<lparr>modal_analysis := Some (data response), modal_loading := False\<rparr>
           else st)
            \<lparr>modal_storage :=
               cache_put stringify (call_title call) (data response) (modal_storage st)\<rparr>
      | Inl err \<Rightarrow>
          (if call_live call
           then st\<lparr>modal_error := Some (if is_missing_key err then MISSING_KEY
                                       else unavailable_notice),
                   modal_loading := False\<rparr>
           else st))"

text \<open>
  \<^verbatim>\<open>App\<close> renders the modal only while \<^verbatim>\<open>selectedTrend\<close> is set, and both
  \<^verbatim>\<open>onClose\<close> and \<^verbatim>\<open>onOpenSettings\<close> set it to \<^verbatim>\<open>null\<close>. That unmounts the
  modal: its state is gone (the next one starts from the initial values), and the calls it
  has made stay pending.
\<close>

definition unmount :: "modal_state \<Rightarrow> modal_state" where
  "unmount st =
     st\<lparr>modal_analysis := None, modal_loading := False, modal_error := None,
        pending_calls := map (\<lambda>call. call\<lparr>call_live := False\<rparr>) (pending_calls st)\<rparr>"

text \<open>
  What can happen, one at a time: a trend is selected and the effect runs for it (in a
  newly mounted modal if none is mounted, else in the mounted one, whose \<^verbatim>\<open>trend\<close>
  changes); the modal is closed; the pending call at a position of the list settles with a
  reply of the service;
  and the other writes of the program to the storage, by \<^verbatim>\<open>handleSaveKey\<close> (through
  \<^verbatim>\<open>setApiKey\<close>), \<^verbatim>\<open>toggleTheme\<close>, \<^verbatim>\<open>handleImageUpload\<close>,
  \<^verbatim>\<open>handleOpacityChange\<close> and \<^verbatim>\<open>handleRemoveBg\<close>, under the keys \<^verbatim>\<open>'theme'\<close>,
  \<^verbatim>\<open>'bg_image'\<close> and \<^verbatim>\<open>'bg_opacity'\<close>.
\<close>

definition theme_key :: jsstring where
  "theme_key = [0x0074, 0x0068, 0x0065, 0x006D, 0x0065]"

definition bg_image_key :: jsstring where
  "bg_image_key = [0x0062, 0x0067, 0x005F, 0x0069, 0x006D, 0x0061, 0x0067, 0x0065]"

definition bg_opacity_key :: jsstring where
  "bg_opacity_key = [0x0062, 0x0067, 0x005F, 0x006F, 0x0070, 0x0061, 0x0063, 0x0069, 0x0074, 0x0079]"

datatype user_action =
    Open_modal TrendItem
  | Close_modal
  | Call_settles nat llm_reply
  | Save_key jsstring
  | Toggle_theme jsstring
  | Upload_image jsstring
  | Change_opacity jsstring
  | Remove_bg

fun user_step ::
  "(jsstring \<Rightarrow> GeneMapAnalysis option) \<Rightarrow> (GeneMapAnalysis \<Rightarrow> jsstring)
     \<Rightarrow> user_action \<Rightarrow> modal_state \<Rightarrow> modal_state" where
  "user_step parse stringify (Open_modal trend) st = effect_begin parse trend st"
| "user_step parse stringify Close_modal st = unmount st"
| "user_step parse stringify (Call_settles i reply) st =
     (if i < length (pending_calls st)
      then effect_settle parse stringify reply (pending_calls st ! i)
             (st\<lparr>pending_calls := take i (pending_calls st) @ drop (Suc i) (pending_calls st)\<rparr>)
      else st)"
| "user_step parse stringify (Save_key key) st =
     st\<lparr>modal_storage := setApiKey key (modal_storage st)\<rparr>"
| "user_step parse stringify (Toggle_theme newTheme) st =
     st\<lparr>modal_storage := (modal_storage st)(theme_key \<mapsto> newTheme)\<rparr>"
| "user_step parse stringify (Upload_image base64String) st =
     st\<lparr>modal_storage := (modal_storage st)(bg_image_key \<mapsto> base64String)\<rparr>"
| "user_step parse stringify (Change_opacity val) st =
     st\<lparr>modal_storage := (modal_storage st)(bg_opacity_key \<mapsto> val)\<rparr>"
| "user_step parse stringify Remove_bg st =
     st\<lparr>modal_storage := (modal_storage st)(bg_image_key := None)\<rparr>"

text \<open>A session: the actions in the order they happen.\<close>

definition user_run ::
  "(jsstring \<Rightarrow> GeneMapAnalysis option) \<Rightarrow> (GeneMapAnalysis \<Rightarrow> jsstring)
     \<Rightarrow> user_action list \<Rightarrow> modal_state \<Rightarrow> modal_state" where
  "user_run parse stringify actions st = fold (user_step parse stringify) actions st"

text \<open>
  \<^verbatim>\<open>JSON.stringify\<close> and \<^verbatim>\<open>JSON.parse\<close> belong to the runtime and are arguments
  of the model. For the examples this is their table on what occurs there: the fallback
  record and its text, the same record with the score 87 and its text, and the empty
  string and a lone brace, which are not JSON. Outside these the table is arbitrary (the
  text \<^verbatim>\<open>null\<close>, and no parse).
\<close>

definition fallback_json :: jsstring where
  "fallback_json =
     [0x007B, 0x0022, 0x0076, 0x0069, 0x0072, 0x0061, 0x006C, 0x0069, 0x0074, 0x0079,
      0x0053, 0x0063, 0x006F, 0x0072, 0x0065, 0x0022, 0x003A, 0x0030, 0x002C, 0x0022,
      0x0073, 0x0065, 0x006E, 0x0074, 0x0069, 0x006D, 0x0065, 0x006E, 0x0074, 0x0022,
      0x003A, 0x007B, 0x0022, 0x006C, 0x0061, 0x0062, 0x0065, 0x006C, 0x0022, 0x003A,
      0x0022, 0x672A, 0x77E5, 0x0022, 0x002C, 0x0022, 0x0061, 0x006E, 0x0061, 0x006C,
      0x0079, 0x0073, 0x0069, 0x0073, 0x0022, 0x003A, 0x0022, 0x5206, 0x6790, 0x670D,
      0x52A1, 0x6682, 0x4E0D, 0x53EF, 0x7528, 0x0022, 0x007D, 0x002C, 0x0022, 0x0064,
      0x006F, 0x006D, 0x0061, 0x0069, 0x006E, 0x0022, 0x003A, 0x007B, 0x0022, 0x006C,
      0x0061, 0x0062, 0x0065, 0x006C, 0x0022, 0x003A, 0x0022, 0x672A, 0x77E5, 0x0022,
      0x002C, 0x0022, 0x0061, 0x006E, 0x0061, 0x006C, 0x0079, 0x0073, 0x0069, 0x0073,
      0x0022, 0x003A, 0x0022, 0x5206, 0x6790, 0x670D, 0x52A1, 0x6682, 0x4E0D, 0x53EF,
      0x7528, 0x0022, 0x007D, 0x002C, 0x0022, 0x0063, 0x006F, 0x006E, 0x0074, 0x0065,
      0x006E, 0x0074, 0x0046, 0x006F, 0x0072, 0x006D, 0x0022, 0x003A, 0x007B, 0x0022,
      0x006C, 0x0061, 0x0062, 0x0065, 0x006C, 0x0022, 0x003A, 0x0022, 0x672A, 0x77E5,
      0x0022, 0x002C, 0x0022, 0x0061, 0x006E, 0x0061, 0x006C, 0x0079, 0x0073, 0x0069,
      0x0073, 0x0022, 0x003A, 0x0022, 0x5206, 0x6790, 0x670D, 0x52A1, 0x6682, 0x4E0D,
      0x53EF, 0x7528, 0x0022, 0x007D, 0x002C, 0x0022, 0x006C, 0x0069, 0x0066, 0x0065,
      0x0063, 0x0079, 0x0063, 0x006C, 0x0065, 0x0022, 0x003A, 0x007B, 0x0022, 0x006C,
      0x0061, 0x0062, 0x0065, 0x006C, 0x0022, 0x003A, 0x0022, 0x672A, 0x77E5, 0x0022,
      0x002C, 0x0022, 0x0061, 0x006E, 0x0061, 0x006C, 0x0079, 0x0073, 0x0069, 0x0073,
      0x0022, 0x003A, 0x0022, 0x5206, 0x6790, 0x670D, 0x52A1, 0x6682, 0x4E0D, 0x53EF,
      0x7528, 0x0022, 0x007D, 0x002C, 0x0022, 0x006B, 0x0065, 0x0079, 0x0077, 0x006F,
      0x0072, 0x0064, 0x0073, 0x0022, 0x003A, 0x005B, 0x0022, 0x9519, 0x8BEF, 0x0022,
      0x002C, 0x0022, 0x914D, 0x7F6E, 0x0022, 0x002C, 0x0022, 0x0041, 0x0050, 0x0049,
      0x0022, 0x005D, 0x007D]"

definition scored_analysis :: GeneMapAnalysis where
  "scored_analysis = fallback_analysis\<lparr>viralityScore := 87\<rparr>"

definition scored_json :: jsstring where
  "scored_json =
     [0x007B, 0x0022, 0x0076, 0x0069, 0x0072, 0x0061, 0x006C, 0x0069, 0x0074, 0x0079,
      0x0053, 0x0063, 0x006F, 0x0072, 0x0065, 0x0022, 0x003A, 0x0038, 0x0037, 0x002C,
      0x0022, 0x0073, 0x0065, 0x006E, 0x0074, 0x0069, 0x006D, 0x0065, 0x006E, 0x0074,
      0x0022, 0x003A, 0x007B, 0x0022, 0x006C, 0x0061, 0x0062, 0x0065, 0x006C, 0x0022,
      0x003A, 0x0022, 0x672A, 0x77E5, 0x0022, 0x002C, 0x0022, 0x0061, 0x006E, 0x0061,
      0x006C, 0x0079, 0x0073, 0x0069, 0x0073, 0x0022, 0x003A, 0x0022, 0x5206, 0x6790,
      0x670D, 0x52A1, 0x6682, 0x4E0D, 0x53EF, 0x7528, 0x0022, 0x007D, 0x002C, 0x0022,
      0x0064, 0x006F, 0x006D, 0x0061, 0x0069, 0x006E, 0x0022, 0x003A, 0x007B, 0x0022,
      0x006C, 0x0061, 0x0062, 0x0065, 0x006C, 0x0022, 0x003A, 0x0022, 0x672A, 0x77E5,
      0x0022, 0x002C, 0x0022, 0x0061, 0x006E, 0x0061, 0x006C, 0x0079, 0x0073, 0x0069,
      0x0073, 0x0022, 0x003A, 0x0022, 0x5206, 0x6790, 0x670D, 0x52A1, 0x6682, 0x4E0D,
      0x53EF, 0x7528, 0x0022, 0x007D, 0x002C, 0x0022, 0x0063, 0x006F, 0x006E, 0x0074,
      0x0065, 0x006E, 0x0074, 0x0046, 0x006F, 0x0072, 0x006D, 0x0022, 0x003A, 0x007B,
      0x0022, 0x006C, 0x0061, 0x0062, 0x0065, 0x006C, 0x0022, 0x003A, 0x0022, 0x672A,
      0x77E5, 0x0022, 0x002C, 0x0022, 0x0061, 0x006E, 0x0061, 0x006C, 0x0079, 0x0073,
      0x0069, 0x0073, 0x0022, 0x003A, 0x0022, 0x5206, 0x6790, 0x670D, 0x52A1, 0x6682,
      0x4E0D, 0x53EF, 0x7528, 0x0022, 0x007D, 0x002C, 0x0022, 0x006C, 0x0069, 0x0066,
      0x0065, 0x0063, 0x0079, 0x0063, 0x006C, 0x0065, 0x0022, 0x003A, 0x007B, 0x0022,
      0x006C, 0x0061, 0x0062, 0x0065, 0x006C, 0x0022, 0x003A, 0x0022, 0x672A, 0x77E5,
      0x0022, 0x002C, 0x0022, 0x0061, 0x006E, 0x0061, 0x006C, 0x0079, 0x0073, 0x0069,
      0x0073, 0x0022, 0x003A, 0x0022, 0x5206, 0x6790, 0x670D, 0x52A1, 0x6682, 0x4E0D,
      0x53EF, 0x7528, 0x0022, 0x007D, 0x002C, 0x0022, 0x006B, 0x0065, 0x0079, 0x0077,
      0x006F, 0x0072, 0x0064, 0x0073, 0x0022, 0x003A, 0x005B, 0x0022, 0x9519, 0x8BEF,
      0x0022, 0x002C, 0x0022, 0x914D, 0x7F6E, 0x0022, 0x002C, 0x0022, 0x0041, 0x0050,
      0x0049, 0x0022, 0x005D, 0x007D]"

definition sample_stringify :: "GeneMapAnalysis \<Rightarrow> jsstring" where
  "sample_stringify a =
     (if a = fallback_analysis then fallback_json
      else if a = scored_analysis then scored_json
      else [0x006E, 0x0075, 0x006C, 0x006C])"

definition sample_parse :: "jsstring \<Rightarrow> GeneMapAnalysis option" where
  "sample_parse s =
     (if s = fallback_json then Some fallback_analysis
      else if s = scored_json then Some scored_analysis
      else None)"

section \<open>Sample environments\<close>

text \<open>The example of the specification: one entry, with its own position \<open>3\<close>.\<close>

definition sample_env :: trend_env where
  "sample_env =
     \<lparr>primary = Source_json (Some [\<lparr>word = Some [0x6D4B, 0x8BD5, 0x8BDD, 0x9898, 0x540E, 0x7EED],
                                      hot_value = Some 5000000, position = Some 3\<rparr>]),
      backup = Source_rejected,
      localStorage = Map.empty,
      deepseek = Fetch_rejected,
      rnd_primary = (\<lambda>i. 1 / 2),
      rnd_backup = (\<lambda>i. 1 / 2),
      rnd_simulated = (\<lambda>i. 1 / 2)\<rparr>"

text \<open>No source answers and no API key is stored.\<close>

definition offline_env :: trend_env where
  "offline_env =
     \<lparr>primary = Source_rejected,
      backup = Source_not_ok,
      localStorage = Map.empty,
      deepseek = Fetch_rejected,
      rnd_primary = (\<lambda>i. 1 / 2),
      rnd_backup = (\<lambda>i. 1 / 2),
      rnd_simulated = (\<lambda>i. 1 / 2)\<rparr>"

text \<open>
  An item as the completion service generates it (the title is U+624B U+673A, the category
  U+79D1 U+6280), its JSON text, and the JSON text of a completion with \<open>n\<close> such items
  (\<open>n\<close> at least 1).
\<close>

definition generated_item :: TrendItem where
  "generated_item =
     \<lparr>rank = 1, title = [0x624B, 0x673A], hotValue = 1000000, category = [0x79D1, 0x6280],
      heatRise = None, description = Some []\<rparr>"

definition generated_item_json :: jsstring where
  "generated_item_json =
     [0x007B, 0x0022, 0x0072, 0x0061, 0x006E, 0x006B, 0x0022, 0x003A, 0x0031, 0x002C,
      0x0022, 0x0074, 0x0069, 0x0074, 0x006C, 0x0065, 0x0022, 0x003A, 0x0022, 0x624B,
      0x673A, 0x0022, 0x002C, 0x0022, 0x0068, 0x006F, 0x0074, 0x0056, 0x0061, 0x006C,
      0x0075, 0x0065, 0x0022, 0x003A, 0x0031, 0x0030, 0x0030, 0x0030, 0x0030, 0x0030,
      0x0030, 0x002C, 0x0022, 0x0063, 0x0061, 0x0074, 0x0065, 0x0067, 0x006F, 0x0072,
      0x0079, 0x0022, 0x003A, 0x0022, 0x79D1, 0x6280, 0x0022, 0x002C, 0x0022, 0x0064,
      0x0065, 0x0073, 0x0063, 0x0072, 0x0069, 0x0070, 0x0074, 0x0069, 0x006F, 0x006E,
      0x0022, 0x003A, 0x0022, 0x0022, 0x007D]"

definition generated_json :: "nat \<Rightarrow> jsstring" where
  "generated_json n =
     [0x007B, 0x0022, 0x0074, 0x0072, 0x0065, 0x006E, 0x0064, 0x0073, 0x0022, 0x003A, 0x005B]
       @ generated_item_json
       @ concat (replicate (n - 1) ([0x002C] @ generated_item_json))
       @ [0x005D, 0x007D]"

text \<open>\<^verbatim>\<open>JSON.parse\<close> on that text; outside it the table is arbitrary (no parse).\<close>

definition parse_generated :: "nat \<Rightarrow> jsstring \<Rightarrow> trends_json option" where
  "parse_generated n s =
     (if s = generated_json n then Some (Trends (replicate n generated_item)) else None)"

text \<open>A storage that holds an API key and nothing else.\<close>

definition keyed_storage :: local_storage where
  "keyed_storage = [API_KEY_STORAGE_KEY \<mapsto> [0x006B]]"

text \<open>
  Both sources fail, an API key is stored, and the completion service answers with the
  given content.
\<close>

definition generative_env :: "jsstring \<Rightarrow> trend_env" where
  "generative_env content =
     \<lparr>primary = Source_rejected,
      backup = Source_rejected,
      localStorage = keyed_storage,
      deepseek = Completion content None,
      rnd_primary = (\<lambda>i. 1 / 2),
      rnd_backup = (\<lambda>i. 1 / 2),
      rnd_simulated = (\<lambda>i. 1 / 2)\<rparr>"







text \<open>Before the modal is first opened, with an API key stored and no call made.\<close>

definition closed_modal :: modal_state where
  "closed_modal =
     \<lparr>modal_storage = keyed_storage, modal_analysis = None, modal_loading = False,
      modal_error = None, pending_calls = [], analysis_calls = 0\<rparr>"

section \<open>Properties of the classifier\<close>

lemma startsWith_iff: "startsWith s k \<longleftrightarrow> (\<exists>r. s = k @ r)"
  by (induction s k rule: startsWith.induct) auto

lemma str_includes_iff: "str_includes t k \<longleftrightarrow> (\<exists>p s. t = p @ k @ s)"
proof (induction t)
  case Nil
  then show ?case by auto
next
  case (Cons c cs)
  show ?case
  proof
    assume "str_includes (c # cs) k"
    then consider "startsWith (c # cs) k" | "str_includes cs k" by auto
    then show "\<exists>p s. c # cs = p @ k @ s"
    proof cases
      case 1
      then obtain r where "c # cs = k @ r" using startsWith_iff by blast
      then have "c # cs = [] @ k @ r" by simp
      then show ?thesis by blast
    next
      case 2
      then obtain p s where "cs = p @ k @ s" using Cons.IH by blast
      then have "c # cs = (c # p) @ k @ s" by simp
      then show ?thesis by blast
    qed
  next
    assume "\<exists>p s. c # cs = p @ k @ s"
    then obtain p s where ps: "c # cs = p @ k @ s" by blast
    show "str_includes (c # cs) k"
    proof (cases p)
      case Nil
      with ps have "startsWith (c # cs) k" using startsWith_iff by auto
      then show ?thesis by simp
    next
      case (Cons a p')
      with ps have "cs = p' @ k @ s" by simp
      then have "str_includes cs k" using Cons.IH by blast
      then show ?thesis by simp
    qed
  qed
qed

lemma score_fold:
  "fold (\<lambda>keyword score. if str_includes t keyword then score + 1 else score) kws n
     = n + length (filter (str_includes t) kws)"
  by (induction kws arbitrary: n) auto

lemma keyword_score_count:
  "keyword_score t keywords = length (filter (str_includes t) keywords)"
  by (simp add: keyword_score_def score_fold)

lemma category_step_apply:
  "category_step t e (m, b) =
     (if m < keyword_score t (snd e) then (keyword_score t (snd e), fst e) else (m, b))"
  by (simp add: category_step_def)

lemma category_loop:
  "(fold (category_step t) es (m, b) = (m, b) \<and> (\<forall>j < length es. keyword_score t (snd (es ! j)) \<le> m))
   \<or> (\<exists>i < length es.
         fold (category_step t) es (m, b) = (keyword_score t (snd (es ! i)), fst (es ! i))
       \<and> m < keyword_score t (snd (es ! i))
       \<and> (\<forall>j < length es. keyword_score t (snd (es ! j)) \<le> keyword_score t (snd (es ! i)))
       \<and> (\<forall>j < i. keyword_score t (snd (es ! j)) < keyword_score t (snd (es ! i))))"
proof (induction es rule: rev_induct)
  case Nil
  then show ?case by simp
next
  case (snoc e es)
  let ?sc = "\<lambda>x. keyword_score t (snd x)"
  let ?r = "fold (category_step t) es (m, b)"
  have step: "fold (category_step t) (es @ [e]) (m, b) = category_step t e ?r" by simp
  from snoc.IH show ?case
  proof (elim disjE conjE exE)
    assume same: "?r = (m, b)" and le: "\<forall>j < length es. ?sc (es ! j) \<le> m"
    show ?thesis
    proof (cases "m < ?sc e")
      case True
      have "fold (category_step t) (es @ [e]) (m, b) = (?sc e, fst e)"
        using True same by (simp add: category_step_apply)
      moreover have "\<forall>j < length (es @ [e]). ?sc ((es @ [e]) ! j) \<le> ?sc e"
        using le True by (auto simp: nth_append less_Suc_eq intro: le_trans less_imp_le)
      moreover have "\<forall>j < length es. ?sc ((es @ [e]) ! j) < ?sc e"
        using le True by (auto simp: nth_append intro: le_less_trans)
      ultimately show ?thesis
        using True by (intro disjI2 exI[of _ "length es"]) simp
    next
      case False
      have "fold (category_step t) (es @ [e]) (m, b) = (m, b)"
        using False same by (simp add: category_step_apply)
      moreover have "\<forall>j < length (es @ [e]). ?sc ((es @ [e]) ! j) \<le> m"
        using le False by (auto simp: nth_append less_Suc_eq)
      ultimately show ?thesis by blast
    qed
  next
    fix i
    assume i: "i < length es"
      and r: "?r = (?sc (es ! i), fst (es ! i))"
      and gt: "m < ?sc (es ! i)"
      and mx: "\<forall>j < length es. ?sc (es ! j) \<le> ?sc (es ! i)"
      and fst: "\<forall>j < i. ?sc (es ! j) < ?sc (es ! i)"
    show ?thesis
    proof (cases "?sc (es ! i) < ?sc e")
      case True
      have "fold (category_step t) (es @ [e]) (m, b) = (?sc e, fst e)"
        using True r by (simp add: category_step_apply)
      moreover have "\<forall>j < length (es @ [e]). ?sc ((es @ [e]) ! j) \<le> ?sc e"
        using mx True by (auto simp: nth_append less_Suc_eq intro: le_trans less_imp_le)
      moreover have "\<forall>j < length es. ?sc ((es @ [e]) ! j) < ?sc e"
        using mx True by (auto simp: nth_append intro: le_less_trans)
      moreover have "m < ?sc e" using gt True by simp
      ultimately show ?thesis
        by (intro disjI2 exI[of _ "length es"]) simp
    next
      case False
      have "fold (category_step t) (es @ [e]) (m, b) = (?sc ((es @ [e]) ! i), fst ((es @ [e]) ! i))"
        using False r i by (simp add: category_step_apply nth_append)
      moreover have "\<forall>j < length (es @ [e]). ?sc ((es @ [e]) ! j) \<le> ?sc ((es @ [e]) ! i)"
        using mx False i by (auto simp: nth_append less_Suc_eq)
      moreover have "\<forall>j < i. ?sc ((es @ [e]) ! j) < ?sc ((es @ [e]) ! i)"
        using fst i by (auto simp: nth_append)
      moreover have "m < ?sc ((es @ [e]) ! i)" using gt i by (simp add: nth_append)
      ultimately show ?thesis
        using i by (intro disjI2 exI[of _ i]) simp
    qed
  qed
qed

lemma KEYWORD_MAP_keys: "map fst KEYWORD_MAP =
   [[0x5A31, 0x4E50, 0x7CBE, 0x9009],
    [0x793E, 0x4F1A, 0x6C11, 0x751F],
    [0x79D1, 0x6280, 0x6570, 0x7801],
    [0x65F6, 0x5C1A, 0x751F, 0x6D3B],
    [0x60C5, 0x611F, 0x65E5, 0x5E38],
    [0x5174, 0x8DA3, 0x5782, 0x7C7B]]"
  by (simp add: KEYWORD_MAP_def)

lemma KEYWORD_MAP_keys_distinct: "distinct (map fst KEYWORD_MAP)"
  unfolding KEYWORD_MAP_keys by simp

lemma KEYWORD_MAP_keys_CATEGORIES: "set (map fst KEYWORD_MAP) \<subseteq> set CATEGORIES"
  unfolding KEYWORD_MAP_keys by (simp add: CATEGORIES_def)

lemma default_category_CATEGORIES: "default_category \<in> set CATEGORIES"
  by (simp add: default_category_def CATEGORIES_def)

lemma determineCategory_cases:
  "(determineCategory t = default_category
      \<and> (\<forall>j < length KEYWORD_MAP. keyword_score t (snd (KEYWORD_MAP ! j)) = 0))
   \<or> (\<exists>i < length KEYWORD_MAP.
         determineCategory t = fst (KEYWORD_MAP ! i)
       \<and> 0 < keyword_score t (snd (KEYWORD_MAP ! i))
       \<and> (\<forall>j < length KEYWORD_MAP.
             keyword_score t (snd (KEYWORD_MAP ! j)) \<le> keyword_score t (snd (KEYWORD_MAP ! i)))
       \<and> (\<forall>j < i. keyword_score t (snd (KEYWORD_MAP ! j)) < keyword_score t (snd (KEYWORD_MAP ! i))))"
proof -
  let ?sc = "\<lambda>x. keyword_score t (snd x)"
  let ?r = "fold (category_step t) KEYWORD_MAP (0, default_category)"
  from category_loop [of t KEYWORD_MAP 0 default_category] show ?thesis
  proof (elim disjE conjE exE)
    assume r: "?r = (0, default_category)"
      and le: "\<forall>j < length KEYWORD_MAP. ?sc (KEYWORD_MAP ! j) \<le> 0"
    have "determineCategory t = default_category"
      using r by (simp add: determineCategory_def)
    moreover have "\<forall>j < length KEYWORD_MAP. ?sc (KEYWORD_MAP ! j) = 0"
      using le by simp
    ultimately show ?thesis by (intro disjI1 conjI)
  next
    fix i
    assume i: "i < length KEYWORD_MAP"
      and r: "?r = (?sc (KEYWORD_MAP ! i), fst (KEYWORD_MAP ! i))"
      and gt: "0 < ?sc (KEYWORD_MAP ! i)"
      and mx: "\<forall>j < length KEYWORD_MAP. ?sc (KEYWORD_MAP ! j) \<le> ?sc (KEYWORD_MAP ! i)"
      and first: "\<forall>j < i. ?sc (KEYWORD_MAP ! j) < ?sc (KEYWORD_MAP ! i)"
    have "determineCategory t = fst (KEYWORD_MAP ! i)"
      using r by (simp add: determineCategory_def)
    with i gt mx first show ?thesis by (intro disjI2 exI [of _ i] conjI)
  qed
qed

lemma determineCategory_in_CATEGORIES: "determineCategory t \<in> set CATEGORIES"
proof (rule disjE [OF determineCategory_cases [of t]])
  assume "determineCategory t = default_category
      \<and> (\<forall>j < length KEYWORD_MAP. keyword_score t (snd (KEYWORD_MAP ! j)) = 0)"
  then have "determineCategory t = default_category" by (rule conjunct1)
  with default_category_CATEGORIES show ?thesis by (simp only:)
next
  assume "\<exists>i < length KEYWORD_MAP.
         determineCategory t = fst (KEYWORD_MAP ! i)
       \<and> 0 < keyword_score t (snd (KEYWORD_MAP ! i))
       \<and> (\<forall>j < length KEYWORD_MAP.
             keyword_score t (snd (KEYWORD_MAP ! j)) \<le> keyword_score t (snd (KEYWORD_MAP ! i)))
       \<and> (\<forall>j < i. keyword_score t (snd (KEYWORD_MAP ! j)) < keyword_score t (snd (KEYWORD_MAP ! i)))"
  then obtain i where i: "i < length KEYWORD_MAP"
    and eq: "determineCategory t = fst (KEYWORD_MAP ! i)"
    by (elim exE conjE)
  from i have "KEYWORD_MAP ! i \<in> set KEYWORD_MAP" by (rule nth_mem)
  then have "fst (KEYWORD_MAP ! i) \<in> fst ` set KEYWORD_MAP" by (rule imageI)
  then have "fst (KEYWORD_MAP ! i) \<in> set (map fst KEYWORD_MAP)" by (simp only: set_map)
  with KEYWORD_MAP_keys_CATEGORIES have "fst (KEYWORD_MAP ! i) \<in> set CATEGORIES"
    by (rule subsetD)
  with eq show ?thesis by (simp only:)
qed

lemma determineCategory_only:
  assumes mem: "(c, kws) \<in> set KEYWORD_MAP"
    and pos: "0 < keyword_score t kws"
    and others: "\<forall>e \<in> set KEYWORD_MAP. fst e \<noteq> c \<longrightarrow> keyword_score t (snd e) = 0"
  shows "determineCategory t = c"
proof -
  from mem obtain n where n: "n < length KEYWORD_MAP" "KEYWORD_MAP ! n = (c, kws)"
    by (auto simp: in_set_conv_nth)
  from determineCategory_cases [of t] show ?thesis
  proof (elim disjE conjE exE)
    assume "\<forall>j < length KEYWORD_MAP. keyword_score t (snd (KEYWORD_MAP ! j)) = 0"
    with n pos show ?thesis by auto
  next
    fix i
    assume i: "i < length KEYWORD_MAP"
      and r: "determineCategory t = fst (KEYWORD_MAP ! i)"
      and ipos: "0 < keyword_score t (snd (KEYWORD_MAP ! i))"
    have "KEYWORD_MAP ! i \<in> set KEYWORD_MAP" using i by simp
    with others ipos have "fst (KEYWORD_MAP ! i) = c" by fastforce
    with r show ?thesis by simp
  qed
qed

text \<open>
  Claim C2. The classifier is a total function from any title into the category set. A
  category's score is the number of its keywords that occur as a substring of the title,
  compared code unit by code unit. When every score is zero the result is the default
  category. Otherwise the result is the category of the highest score, and among equal
  scores the one that comes first in iteration order. In particular, when exactly one
  category has a keyword in the title, that category is the result.
\<close>

theorem determineCategory_classifies:
  "determineCategory t \<in> set CATEGORIES
   \<and> (\<forall>k. str_includes t k \<longleftrightarrow> (\<exists>p s. t = p @ k @ s))
   \<and> (\<forall>kws. keyword_score t kws = length (filter (str_includes t) kws))
   \<and> ((\<forall>e \<in> set KEYWORD_MAP. keyword_score t (snd e) = 0)
        \<longrightarrow> determineCategory t = default_category)
   \<and> ((\<exists>e \<in> set KEYWORD_MAP. 0 < keyword_score t (snd e))
        \<longrightarrow> (\<exists>i < length KEYWORD_MAP.
               determineCategory t = fst (KEYWORD_MAP ! i)
             \<and> 0 < keyword_score t (snd (KEYWORD_MAP ! i))
             \<and> (\<forall>j < length KEYWORD_MAP.
                   keyword_score t (snd (KEYWORD_MAP ! j))
                     \<le> keyword_score t (snd (KEYWORD_MAP ! i)))
             \<and> (\<forall>j < i. keyword_score t (snd (KEYWORD_MAP ! j))
                     < keyword_score t (snd (KEYWORD_MAP ! i)))))
   \<and> ((c, ckws) \<in> set KEYWORD_MAP \<and> 0 < keyword_score t ckws
        \<and> (\<forall>e \<in> set KEYWORD_MAP. fst e \<noteq> c \<longrightarrow> keyword_score t (snd e) = 0)
        \<longrightarrow> determineCategory t = c)"
proof (intro conjI allI impI)
  show "determineCategory t \<in> set CATEGORIES"
    by (rule determineCategory_in_CATEGORIES)
next
  fix k show "str_includes t k \<longleftrightarrow> (\<exists>p s. t = p @ k @ s)"
    by (rule str_includes_iff)
next
  fix kws show "keyword_score t kws = length (filter (str_includes t) kws)"
    by (rule keyword_score_count)
next
  assume zero: "\<forall>e \<in> set KEYWORD_MAP. keyword_score t (snd e) = 0"
  from determineCategory_cases [of t] show "determineCategory t = default_category"
  proof (elim disjE conjE exE)
    fix i assume "i < length KEYWORD_MAP" "0 < keyword_score t (snd (KEYWORD_MAP ! i))"
    with zero show ?thesis by (metis nth_mem less_numeral_extra(3))
  qed
next
  assume "\<exists>e \<in> set KEYWORD_MAP. 0 < keyword_score t (snd e)"
  then obtain n where "n < length KEYWORD_MAP" "0 < keyword_score t (snd (KEYWORD_MAP ! n))"
    by (auto simp: in_set_conv_nth)
  with determineCategory_cases [of t]
  show "\<exists>i < length KEYWORD_MAP.
               determineCategory t = fst (KEYWORD_MAP ! i)
             \<and> 0 < keyword_score t (snd (KEYWORD_MAP ! i))
             \<and> (\<forall>j < length KEYWORD_MAP.
                   keyword_score t (snd (KEYWORD_MAP ! j))
                     \<le> keyword_score t (snd (KEYWORD_MAP ! i)))
             \<and> (\<forall>j < i. keyword_score t (snd (KEYWORD_MAP ! j))
                     < keyword_score t (snd (KEYWORD_MAP ! i)))"
    by auto
next
  assume "(c, ckws) \<in> set KEYWORD_MAP \<and> 0 < keyword_score t ckws
        \<and> (\<forall>e \<in> set KEYWORD_MAP. fst e \<noteq> c \<longrightarrow> keyword_score t (snd e) = 0)"
  then show "determineCategory t = c"
    using determineCategory_only by blast
qed

text \<open>
  The title U+624B U+673A ("mobile phone") holds one keyword of the technology category and
  none of any other category.
\<close>

theorem determineCategory_classifies_witness:
  "0 < keyword_score [0x624B, 0x673A] (snd (KEYWORD_MAP ! 2))
   \<and> keyword_score [0x624B, 0x673A] (snd (KEYWORD_MAP ! 0)) = 0
   \<and> keyword_score [0x624B, 0x673A] (snd (KEYWORD_MAP ! 1)) = 0
   \<and> keyword_score [0x624B, 0x673A] (snd (KEYWORD_MAP ! 3)) = 0
   \<and> keyword_score [0x624B, 0x673A] (snd (KEYWORD_MAP ! 4)) = 0
   \<and> keyword_score [0x624B, 0x673A] (snd (KEYWORD_MAP ! 5)) = 0
   \<and> determineCategory [0x624B, 0x673A] = [0x79D1, 0x6280, 0x6570, 0x7801]"
proof -
  have a: "(fst (KEYWORD_MAP ! 2), snd (KEYWORD_MAP ! 2)) \<in> set KEYWORD_MAP"
    by (simp add: KEYWORD_MAP_def)
  have b: "0 < keyword_score [0x624B, 0x673A] (snd (KEYWORD_MAP ! 2))"
    by (simp add: KEYWORD_MAP_def keyword_score_def)
  have z: "keyword_score [0x624B, 0x673A] (snd (KEYWORD_MAP ! 0)) = 0"
    "keyword_score [0x624B, 0x673A] (snd (KEYWORD_MAP ! 1)) = 0"
    "keyword_score [0x624B, 0x673A] (snd (KEYWORD_MAP ! 3)) = 0"
    "keyword_score [0x624B, 0x673A] (snd (KEYWORD_MAP ! 4)) = 0"
    "keyword_score [0x624B, 0x673A] (snd (KEYWORD_MAP ! 5)) = 0"
    by (simp_all add: KEYWORD_MAP_def keyword_score_def)
  have c: "\<forall>e \<in> set KEYWORD_MAP. fst e \<noteq> fst (KEYWORD_MAP ! 2)
             \<longrightarrow> keyword_score [0x624B, 0x673A] (snd e) = 0"
    by (simp add: KEYWORD_MAP_def keyword_score_def)
  have d: "fst (KEYWORD_MAP ! 2) = [0x79D1, 0x6280, 0x6570, 0x7801]"
    by (simp add: KEYWORD_MAP_def)
  have "determineCategory [0x624B, 0x673A] = fst (KEYWORD_MAP ! 2)"
    using determineCategory_classifies
      [of "[0x624B, 0x673A]" "fst (KEYWORD_MAP ! 2)" "snd (KEYWORD_MAP ! 2)"] a b c
    by blast
  with b z d show ?thesis by (simp only: simp_thms)
qed

section \<open>Properties of the heat-rise estimator\<close>

text \<open>
  Claim C6, amended. For a draw \<open>r\<close> in \<open>[0, 1)\<close> and a non-negative total heat, the
  ratio lies in \<open>[0.01, 0.08)\<close>, the result is the floor of the total heat times the ratio
  and is non-negative. It is below \<open>ceil (0.08 * totalHeat)\<close> when the total heat is
  positive, and it is \<open>0\<close> when the total heat is \<open>0\<close>.
\<close>

theorem calculateHeatRise_range:
  assumes "0 \<le> r" and "r < 1" and "0 \<le> totalHotValue"
  shows "1 / 100 \<le> percentage r \<and> percentage r < 8 / 100
       \<and> calculateHeatRise r totalHotValue = \<lfloor>totalHotValue * percentage r\<rfloor>
       \<and> 0 \<le> calculateHeatRise r totalHotValue
       \<and> (0 < totalHotValue \<longrightarrow> calculateHeatRise r totalHotValue < \<lceil>8 / 100 * totalHotValue\<rceil>)
       \<and> (totalHotValue = 0 \<longrightarrow> calculateHeatRise r totalHotValue = 0)"
proof -
  have lo: "1 / 100 \<le> percentage r" using assms by (simp add: percentage_def)
  have hi: "percentage r < 8 / 100" using assms by (simp add: percentage_def)
  have nn: "0 \<le> totalHotValue * percentage r" using assms lo by simp
  have "0 < totalHotValue \<longrightarrow> calculateHeatRise r totalHotValue < \<lceil>8 / 100 * totalHotValue\<rceil>"
  proof
    assume pos: "0 < totalHotValue"
    have "totalHotValue * percentage r < 8 / 100 * totalHotValue"
      using pos hi by (simp add: mult.commute)
    also have "\<dots> \<le> of_int \<lceil>8 / 100 * totalHotValue\<rceil>" by (rule le_of_int_ceiling)
    finally show "calculateHeatRise r totalHotValue < \<lceil>8 / 100 * totalHotValue\<rceil>"
      by (simp add: calculateHeatRise_def floor_less_iff)
  qed
  then show ?thesis using lo hi nn by (simp add: calculateHeatRise_def)
qed

theorem calculateHeatRise_range_witness:
  "(0::rat) \<le> 1 / 2 \<and> (1 / 2 :: rat) < 1 \<and> (0::rat) \<le> 5000000
   \<and> calculateHeatRise (1 / 2) 5000000 = 225000
   \<and> 0 \<le> calculateHeatRise (1 / 2) 5000000
   \<and> calculateHeatRise (1 / 2) 5000000 < \<lceil>8 / 100 * (5000000 :: rat)\<rceil>"
proof -
  have h1: "(0::rat) \<le> 1 / 2" and h2: "(1 / 2 :: rat) < 1" and h3: "(0::rat) \<le> 5000000" by simp_all
  have v: "calculateHeatRise (1 / 2) 5000000 = 225000"
    by (simp add: calculateHeatRise_def percentage_def)
  from calculateHeatRise_range [OF h1 h2 h3] v show ?thesis by simp
qed

text \<open>
  Claim C6 as stated fails at total heat \<open>0\<close>: the result is \<open>0\<close>, and the interval
  \<open>[0, ceil (0.08 * 0))\<close> is empty.
\<close>

theorem calculateHeatRise_zero_counterexample:
  "\<not> ((0::rat) \<le> 1 / 2 \<and> (1 / 2 :: rat) < 1 \<and> (0::rat) \<le> 0
        \<longrightarrow> 0 \<le> calculateHeatRise (1 / 2) 0
          \<and> calculateHeatRise (1 / 2) 0 < \<lceil>8 / 100 * (0 :: rat)\<rceil>)"
  by (simp add: calculateHeatRise_def)

lemma percentage_nonneg: "0 \<le> r \<Longrightarrow> 0 \<le> percentage r"
  by (simp add: percentage_def)

lemma calculateHeatRise_nonneg:
  "0 \<le> r \<Longrightarrow> 0 \<le> totalHotValue \<Longrightarrow> 0 \<le> calculateHeatRise r totalHotValue"
  by (simp add: calculateHeatRise_def percentage_nonneg)

lemma normalize_entry_word:
  "word item = Some w \<Longrightarrow>
   normalize_entry r index item =
     Inr \<lparr>rank = (case position item of
                     Some p \<Rightarrow> if 0 < p then p else of_nat index + 1
                   | None \<Rightarrow> of_nat index + 1),
          title = w,
          hotValue = (case hot_value item of Some v \<Rightarrow> v | None \<Rightarrow> 0),
          category = determineCategory w,
          heatRise = Some (calculateHeatRise r (case hot_value item of Some v \<Rightarrow> v | None \<Rightarrow> 0)),
          description = Some []\<rparr>"
  by (auto simp: normalize_entry_def Let_def split: option.splits)

lemma map_entries_total:
  "\<forall>e \<in> set list. word e \<noteq> None \<Longrightarrow>
   \<exists>items. map_entries rnd k list = Inr items \<and> length items = length list
     \<and> (\<forall>i < length list. normalize_entry (rnd (k + i)) (k + i) (list ! i) = Inr (items ! i))"
proof (induction list arbitrary: k)
  case Nil
  then show ?case by simp
next
  case (Cons item rest)
  from Cons.prems obtain w where w: "word item = Some w" by auto
  then obtain t where t: "normalize_entry (rnd k) k item = Inr t"
    using normalize_entry_word by blast
  from Cons.prems have "\<forall>e \<in> set rest. word e \<noteq> None" by simp
  from Cons.IH [OF this, of "k + 1"] obtain ts where
    ts: "map_entries rnd (k + 1) rest = Inr ts" "length ts = length rest"
    and nth: "\<forall>i < length rest. normalize_entry (rnd (k + 1 + i)) (k + 1 + i) (rest ! i) = Inr (ts ! i)"
    by blast
  have "map_entries rnd k (item # rest) = Inr (t # ts)" using t ts by simp
  moreover have "length (t # ts) = length (item # rest)" using ts by simp
  moreover have "\<forall>i < length (item # rest).
      normalize_entry (rnd (k + i)) (k + i) ((item # rest) ! i) = Inr ((t # ts) ! i)"
  proof (intro allI impI)
    fix i assume "i < length (item # rest)"
    then show "normalize_entry (rnd (k + i)) (k + i) ((item # rest) ! i) = Inr ((t # ts) ! i)"
      using t nth by (cases i) auto
  qed
  ultimately show ?case by blast
qed

lemma parseDouyinData_total:
  assumes "\<forall>e \<in> set list. word e \<noteq> None"
  shows "\<exists>items. parseDouyinData rnd list = Inr items \<and> length items = min (length list) 51
     \<and> (\<forall>i < length items. normalize_entry (rnd i) i (list ! i) = Inr (items ! i))"
proof -
  from map_entries_total [OF assms, of rnd 0] obtain all_items where
    a: "map_entries rnd 0 list = Inr all_items" "length all_items = length list"
    and nth: "\<forall>i < length list. normalize_entry (rnd i) i (list ! i) = Inr (all_items ! i)"
    by auto
  have "parseDouyinData rnd list = Inr (take 51 all_items)"
    using a by (simp add: parseDouyinData_def)
  moreover have "length (take 51 all_items) = min (length list) 51"
    using a by simp
  moreover have "\<forall>i < length (take 51 all_items).
      normalize_entry (rnd i) i (list ! i) = Inr (take 51 all_items ! i)"
    using a nth by simp
  ultimately show ?thesis by blast
qed

lemma parseDouyinData_length:
  "parseDouyinData rnd list = Inr items \<Longrightarrow> length items \<le> 51"
  by (auto simp: parseDouyinData_def split: sum.splits)

section \<open>Properties of the trend source chain\<close>

text \<open>
  Claim C1. When the primary source returns a list of \<open>N\<close> entries that each have a
  word and a hot value that is missing or non-negative, and the draws of
  \<^verbatim>\<open>Math.random\<close> lie in \<open>[0, 1)\<close>, then \<^verbatim>\<open>fetchTrends\<close> returns exactly
  \<open>min N 51\<close> items. The item at index \<open>i\<close> has the entry's word as title, the
  classifier's category of that title, which is a member of \<^verbatim>\<open>CATEGORIES\<close>, a heat rise
  computed by the estimator and non-negative, and as rank the entry's position when that is
  present and positive, else \<open>i + 1\<close>.
\<close>

theorem fetchTrends_primary_normalizes:
  assumes prim: "primary env = Source_json (Some word_list)"
    and wf: "\<forall>e \<in> set word_list. word e \<noteq> None \<and> (\<forall>v. hot_value e = Some v \<longrightarrow> 0 \<le> v)"
    and draws: "\<forall>i. 0 \<le> rnd_primary env i \<and> rnd_primary env i < 1"
  shows "\<exists>items. fetchTrends parse env = Inr items
     \<and> length items = min (length word_list) 51
     \<and> (\<forall>i < length items.
           category (items ! i) \<in> set CATEGORIES
         \<and> category (items ! i) = determineCategory (title (items ! i))
         \<and> word (word_list ! i) = Some (title (items ! i))
         \<and> (\<exists>h. heatRise (items ! i) = Some h \<and> 0 \<le> h
                \<and> h = calculateHeatRise (rnd_primary env i) (hotValue (items ! i)))
         \<and> rank (items ! i) =
             (case position (word_list ! i) of
                Some p \<Rightarrow> if 0 < p then p else of_nat i + 1
              | None \<Rightarrow> of_nat i + 1))"
proof -
  from wf have words: "\<forall>e \<in> set word_list. word e \<noteq> None" by blast
  from parseDouyinData_total [OF words, of "rnd_primary env"] obtain items where
    p: "parseDouyinData (rnd_primary env) word_list = Inr items"
    and len: "length items = min (length word_list) 51"
    and nth: "\<forall>i < length items.
        normalize_entry (rnd_primary env i) i (word_list ! i) = Inr (items ! i)"
    by blast
  have f: "fetchTrends parse env = Inr items"
    using prim p by (simp add: fetchTrends_def primary_attempt_def)
  have each: "category (items ! i) \<in> set CATEGORIES
         \<and> category (items ! i) = determineCategory (title (items ! i))
         \<and> word (word_list ! i) = Some (title (items ! i))
         \<and> (\<exists>h. heatRise (items ! i) = Some h \<and> 0 \<le> h
                \<and> h = calculateHeatRise (rnd_primary env i) (hotValue (items ! i)))
         \<and> rank (items ! i) =
             (case position (word_list ! i) of
                Some p \<Rightarrow> if 0 < p then p else of_nat i + 1
              | None \<Rightarrow> of_nat i + 1)" if i: "i < length items" for i
  proof -
    let ?item = "word_list ! i"
    from i len have il: "i < length word_list" by simp
    then have mem: "?item \<in> set word_list" by simp
    with wf obtain w where w: "word ?item = Some w" by auto
    from mem wf have hv: "0 \<le> (case hot_value ?item of Some v \<Rightarrow> v | None \<Rightarrow> 0)"
      by (auto split: option.splits)
    from nth i have "normalize_entry (rnd_primary env i) i ?item = Inr (items ! i)" by simp
    with normalize_entry_word [OF w, of "rnd_primary env i" i]
    have eq: "items ! i =
       \<lparr>rank = (case position ?item of
                     Some p \<Rightarrow> if 0 < p then p else of_nat i + 1
                   | None \<Rightarrow> of_nat i + 1),
          title = w,
          hotValue = (case hot_value ?item of Some v \<Rightarrow> v | None \<Rightarrow> 0),
          category = determineCategory w,
          heatRise = Some (calculateHeatRise (rnd_primary env i)
                       (case hot_value ?item of Some v \<Rightarrow> v | None \<Rightarrow> 0)),
          description = Some []\<rparr>" by simp
    have "0 \<le> calculateHeatRise (rnd_primary env i)
                       (case hot_value ?item of Some v \<Rightarrow> v | None \<Rightarrow> 0)"
      using draws hv by (intro calculateHeatRise_nonneg) auto
    then show ?thesis
      using w determineCategory_in_CATEGORIES [of w] by (simp add: eq)
  qed
  from f len each show ?thesis by blast
qed

text \<open>
  The example of the specification: the entry with word U+6D4B U+8BD5 U+8BDD U+9898 U+540E
  U+7EED, hot value 5000000 and position 3 becomes the item of rank 3 in the default
  category; with the draw \<open>1/2\<close> its heat rise is 225000.
\<close>

theorem fetchTrends_primary_normalizes_witness:
  "primary sample_env =
     Source_json (Some [\<lparr>word = Some [0x6D4B, 0x8BD5, 0x8BDD, 0x9898, 0x540E, 0x7EED],
                          hot_value = Some 5000000, position = Some 3\<rparr>])
   \<and> (\<forall>i. 0 \<le> rnd_primary sample_env i \<and> rnd_primary sample_env i < 1)
   \<and> fetchTrends (\<lambda>content. None) sample_env =
       Inr [\<lparr>rank = 3, title = [0x6D4B, 0x8BD5, 0x8BDD, 0x9898, 0x540E, 0x7EED],
             hotValue = 5000000, category = [0x793E, 0x4F1A, 0x6C11, 0x751F],
             heatRise = Some 225000, description = Some []\<rparr>]
   \<and> (\<exists>items. fetchTrends (\<lambda>content. None) sample_env = Inr items \<and> length items = 1)"
proof -
  let ?list = "[\<lparr>word = Some [0x6D4B, 0x8BD5, 0x8BDD, 0x9898, 0x540E, 0x7EED],
                  hot_value = Some (5000000 :: rat), position = Some (3 :: rat)\<rparr>]"
  have p: "primary sample_env = Source_json (Some ?list)"
    by (simp add: sample_env_def)
  have wf: "\<forall>e \<in> set ?list. word e \<noteq> None \<and> (\<forall>v. hot_value e = Some v \<longrightarrow> 0 \<le> v)"
    by simp
  have d: "\<forall>i. 0 \<le> rnd_primary sample_env i \<and> rnd_primary sample_env i < 1"
    by (simp add: sample_env_def)
  have cat: "determineCategory [0x6D4B, 0x8BD5, 0x8BDD, 0x9898, 0x540E, 0x7EED]
      = [0x793E, 0x4F1A, 0x6C11, 0x751F]"
    by (simp add: determineCategory_def category_step_def keyword_score_def KEYWORD_MAP_def
        default_category_def)
  have v: "fetchTrends (\<lambda>content. None) sample_env =
       Inr [\<lparr>rank = 3, title = [0x6D4B, 0x8BD5, 0x8BDD, 0x9898, 0x540E, 0x7EED],
             hotValue = 5000000, category = [0x793E, 0x4F1A, 0x6C11, 0x751F],
             heatRise = Some 225000, description = Some []\<rparr>]"
    by (simp add: fetchTrends_def primary_attempt_def parseDouyinData_def normalize_entry_def
        sample_env_def cat calculateHeatRise_def percentage_def)
  from fetchTrends_primary_normalizes [OF p wf d, of "\<lambda>content. None"]
  have "\<exists>items. fetchTrends (\<lambda>content. None) sample_env = Inr items \<and> length items = 1"
    by auto
  with p d v show ?thesis by (intro conjI)
qed

lemma fetchSimulatedTrends_returns:
  "\<exists>items. fetchSimulatedTrends parse storage reply rnd = Inr items"
  by (simp add: fetchSimulatedTrends_def split: sum.splits)

lemma fetchTrends_returns: "\<exists>items. fetchTrends parse env = Inr items"
  using fetchSimulatedTrends_returns
  by (simp add: fetchTrends_def split: sum.splits option.splits)

lemma fetchTrends_all_fail:
  assumes "primary_attempt env = Inl e1"
    and "backup_attempt env = Inl e2 \<or> backup_attempt env = Inr None"
    and "simulated_attempt parse (localStorage env) (deepseek env) (rnd_simulated env) = Inl e3"
  shows "fetchTrends parse env = Inr placeholder_trends"
  using assms by (auto simp: fetchTrends_def fetchSimulatedTrends_def)

lemma callDeepSeek_no_key:
  "getApiKey storage = None \<or> getApiKey storage = Some [] \<Longrightarrow>
   callDeepSeek storage reply = Inl (Error MISSING_API_KEY)"
  by (auto simp: callDeepSeek_def)

lemma simulated_attempt_no_key:
  "getApiKey storage = None \<or> getApiKey storage = Some [] \<Longrightarrow>
   simulated_attempt parse storage reply rnd = Inl (Error MISSING_API_KEY)"
  by (simp add: simulated_attempt_def callDeepSeek_no_key)

text \<open>
  Claim C3. When the primary attempt throws, the backup attempt throws or ends without a
  list, and the attempt of the generative fallback throws, \<^verbatim>\<open>fetchTrends\<close> returns
  exactly the placeholder list. A missing (or empty) API key makes the generative attempt
  throw. \<^verbatim>\<open>fetchTrends\<close> never throws. The placeholder has two items: rank 1, the
  network-failure notice, with hot value 0 and heat rise 0; and rank 2, the notice of the
  missing key.
\<close>

theorem fetchTrends_placeholder:
  "(primary_attempt env = Inl e1
      \<and> (backup_attempt env = Inl e2 \<or> backup_attempt env = Inr None)
      \<and> simulated_attempt parse (localStorage env) (deepseek env) (rnd_simulated env) = Inl e3
     \<longrightarrow> fetchTrends parse env = Inr placeholder_trends)
   \<and> (getApiKey (localStorage env) = None \<or> getApiKey (localStorage env) = Some []
     \<longrightarrow> simulated_attempt parse (localStorage env) (deepseek env) (rnd_simulated env)
           = Inl (Error MISSING_API_KEY))
   \<and> (\<exists>items. fetchTrends parse env = Inr items)
   \<and> length placeholder_trends = 2
   \<and> rank (placeholder_trends ! 0) = 1
   \<and> hotValue (placeholder_trends ! 0) = 0
   \<and> heatRise (placeholder_trends ! 0) = Some 0
   \<and> title (placeholder_trends ! 0) = network_failure_title
   \<and> rank (placeholder_trends ! 1) = 2
   \<and> title (placeholder_trends ! 1) = missing_key_title"
proof (intro conjI impI)
  assume "primary_attempt env = Inl e1
      \<and> (backup_attempt env = Inl e2 \<or> backup_attempt env = Inr None)
      \<and> simulated_attempt parse (localStorage env) (deepseek env) (rnd_simulated env) = Inl e3"
  then show "fetchTrends parse env = Inr placeholder_trends"
    using fetchTrends_all_fail by blast
next
  assume "getApiKey (localStorage env) = None \<or> getApiKey (localStorage env) = Some []"
  then show "simulated_attempt parse (localStorage env) (deepseek env) (rnd_simulated env)
           = Inl (Error MISSING_API_KEY)"
    by (rule simulated_attempt_no_key)
next
  show "\<exists>items. fetchTrends parse env = Inr items" by (rule fetchTrends_returns)
qed (simp_all add: placeholder_trends_def)

text \<open>With no source answering and no API key stored, the result is the placeholder.\<close>

theorem fetchTrends_placeholder_witness:
  "primary_attempt offline_env = Inl TypeError
   \<and> backup_attempt offline_env
       = Inl (Error backup_network_error)
   \<and> getApiKey (localStorage offline_env) = None
   \<and> simulated_attempt (\<lambda>content. None) (localStorage offline_env) (deepseek offline_env)
        (rnd_simulated offline_env) = Inl (Error MISSING_API_KEY)
   \<and> fetchTrends (\<lambda>content. None) offline_env = Inr placeholder_trends"
proof -
  have a: "primary_attempt offline_env = Inl TypeError"
    by (simp add: primary_attempt_def offline_env_def)
  have b: "backup_attempt offline_env
       = Inl (Error backup_network_error)"
    by (simp add: backup_attempt_def offline_env_def)
  have k: "getApiKey (localStorage offline_env) = None"
    by (simp add: getApiKey_def offline_env_def)
  note inst = fetchTrends_placeholder [of offline_env TypeError _ "\<lambda>content. None" "Error MISSING_API_KEY"]
  from inst k have s: "simulated_attempt (\<lambda>content. None) (localStorage offline_env)
      (deepseek offline_env) (rnd_simulated offline_env) = Inl (Error MISSING_API_KEY)"
    by blast
  from inst a b s have "fetchTrends (\<lambda>content. None) offline_env = Inr placeholder_trends"
    by blast
  with a b k s show ?thesis by (intro conjI)
qed

lemma generative_env_call:
  "callDeepSeek (localStorage (generative_env content)) (deepseek (generative_env content))
     = Inr (content, None)"
  by (simp add: callDeepSeek_def getApiKey_def generative_env_def keyed_storage_def)

lemma generative_env_sources:
  "primary_attempt (generative_env content) = Inl TypeError"
  "backup_attempt (generative_env content) = Inl TypeError"
  by (simp_all add: primary_attempt_def backup_attempt_def generative_env_def)

text \<open>
  Claim C8 does not hold of the code. \<^verbatim>\<open>parseDouyinData\<close> slices its list to 51
  items, but \<^verbatim>\<open>fetchSimulatedTrends\<close> maps over the generated list and does not slice
  it. With both sources failing and a completion of 52 items the result has 52 items.
\<close>

theorem fetchTrends_generated_52:
  "map_sum id length (fetchTrends (parse_generated 52) (generative_env (generated_json 52)))
     = Inr 52
   \<and> \<not> (52 :: nat) \<le> 51"
  by (simp add: fetchTrends_def fetchSimulatedTrends_def simulated_attempt_def
      generative_env_sources generative_env_call parse_generated_def)

lemma simulated_attempt_length:
  assumes "callDeepSeek storage reply = Inr (content, tokens)"
    and "parse content = Some (Trends ts)"
  shows "\<exists>items. simulated_attempt parse storage reply rnd = Inr items \<and> length items = length ts"
  using assms by (simp add: simulated_attempt_def)

lemma simulated_attempt_no_trends:
  assumes "callDeepSeek storage reply = Inr (content, tokens)"
    and "parse content = Some No_trends"
  shows "simulated_attempt parse storage reply rnd = Inr []"
  using assms by (simp add: simulated_attempt_def)

lemma fetchTrends_primary:
  "primary_attempt env = Inr items \<Longrightarrow> fetchTrends parse env = Inr items"
  by (simp add: fetchTrends_def)

lemma fetchTrends_backup:
  "primary_attempt env = Inl e1 \<Longrightarrow> backup_attempt env = Inr (Some items) \<Longrightarrow>
   fetchTrends parse env = Inr items"
  by (simp add: fetchTrends_def)

lemma fetchTrends_generative:
  "primary_attempt env = Inl e1 \<Longrightarrow>
   backup_attempt env = Inl e2 \<or> backup_attempt env = Inr None \<Longrightarrow>
   fetchTrends parse env =
     fetchSimulatedTrends parse (localStorage env) (deepseek env) (rnd_simulated env)"
  by (auto simp: fetchTrends_def)

lemma primary_attempt_length: "primary_attempt env = Inr items \<Longrightarrow> length items \<le> 51"
  by (auto simp: primary_attempt_def parseDouyinData_length
      split: source_reply.splits option.splits)

lemma backup_attempt_length: "backup_attempt env = Inr (Some items) \<Longrightarrow> length items \<le> 51"
  by (auto simp: backup_attempt_def parseDouyinData_length
      split: source_reply.splits option.splits sum.splits)

text \<open>
  The bound by tier. A result of the primary tier, of the backup tier, or the placeholder
  has at most 51 items. A result of the generative tier has as many items as the generated
  list (none when the completion has no list).
\<close>

theorem fetchTrends_length_by_tier:
  "(primary_attempt env = Inr items
      \<longrightarrow> fetchTrends parse env = Inr items \<and> length items \<le> 51)
   \<and> (primary_attempt env = Inl e1 \<and> backup_attempt env = Inr (Some items)
      \<longrightarrow> fetchTrends parse env = Inr items \<and> length items \<le> 51)
   \<and> (primary_attempt env = Inl e1
        \<and> (backup_attempt env = Inl e2 \<or> backup_attempt env = Inr None)
        \<and> simulated_attempt parse (localStorage env) (deepseek env) (rnd_simulated env) = Inl e3
      \<longrightarrow> fetchTrends parse env = Inr placeholder_trends \<and> length placeholder_trends \<le> 51)
   \<and> (primary_attempt env = Inl e1
        \<and> (backup_attempt env = Inl e2 \<or> backup_attempt env = Inr None)
        \<and> callDeepSeek (localStorage env) (deepseek env) = Inr (content, tokens)
        \<and> parse content = Some No_trends
      \<longrightarrow> fetchTrends parse env = Inr [])
   \<and> (primary_attempt env = Inl e1
        \<and> (backup_attempt env = Inl e2 \<or> backup_attempt env = Inr None)
        \<and> callDeepSeek (localStorage env) (deepseek env) = Inr (content, tokens)
        \<and> parse content = Some (Trends ts)
      \<longrightarrow> (\<exists>generated. fetchTrends parse env = Inr generated \<and> length generated = length ts))"
proof (intro conjI impI)
  assume "primary_attempt env = Inr items"
  then show "fetchTrends parse env = Inr items" "length items \<le> 51"
    by (simp_all add: fetchTrends_primary primary_attempt_length)
next
  assume a: "primary_attempt env = Inl e1 \<and> backup_attempt env = Inr (Some items)"
  then show "fetchTrends parse env = Inr items" by (simp add: fetchTrends_backup)
  from a show "length items \<le> 51" using backup_attempt_length by blast
next
  assume "primary_attempt env = Inl e1
        \<and> (backup_attempt env = Inl e2 \<or> backup_attempt env = Inr None)
        \<and> simulated_attempt parse (localStorage env) (deepseek env) (rnd_simulated env) = Inl e3"
  then show "fetchTrends parse env = Inr placeholder_trends"
    using fetchTrends_all_fail by blast
next
  show "length placeholder_trends \<le> 51" by (simp add: placeholder_trends_def)
next
  assume a: "primary_attempt env = Inl e1
        \<and> (backup_attempt env = Inl e2 \<or> backup_attempt env = Inr None)
        \<and> callDeepSeek (localStorage env) (deepseek env) = Inr (content, tokens)
        \<and> parse content = Some No_trends"
  then have "simulated_attempt parse (localStorage env) (deepseek env) (rnd_simulated env) = Inr []"
    using simulated_attempt_no_trends by blast
  moreover from a have "fetchTrends parse env =
     fetchSimulatedTrends parse (localStorage env) (deepseek env) (rnd_simulated env)"
    using fetchTrends_generative by blast
  ultimately show "fetchTrends parse env = Inr []"
    by (simp add: fetchSimulatedTrends_def)
next
  assume a: "primary_attempt env = Inl e1
        \<and> (backup_attempt env = Inl e2 \<or> backup_attempt env = Inr None)
        \<and> callDeepSeek (localStorage env) (deepseek env) = Inr (content, tokens)
        \<and> parse content = Some (Trends ts)"
  then obtain generated where
    g: "simulated_attempt parse (localStorage env) (deepseek env) (rnd_simulated env) = Inr generated"
      "length generated = length ts"
    using simulated_attempt_length by blast
  moreover from a have "fetchTrends parse env =
     fetchSimulatedTrends parse (localStorage env) (deepseek env) (rnd_simulated env)"
    using fetchTrends_generative by blast
  ultimately have "fetchTrends parse env = Inr generated"
    by (simp add: fetchSimulatedTrends_def)
  with g show "\<exists>generated. fetchTrends parse env = Inr generated \<and> length generated = length ts"
    by blast
qed

text \<open>A completion of two items gives a result of two items.\<close>

theorem fetchTrends_length_by_tier_witness:
  "primary_attempt (generative_env (generated_json 2)) = Inl TypeError
   \<and> backup_attempt (generative_env (generated_json 2)) = Inl TypeError
   \<and> callDeepSeek (localStorage (generative_env (generated_json 2)))
         (deepseek (generative_env (generated_json 2)))
       = Inr (generated_json 2, None)
   \<and> parse_generated 2 (generated_json 2) = Some (Trends (replicate 2 generated_item))
   \<and> (\<exists>generated.
         fetchTrends (parse_generated 2) (generative_env (generated_json 2)) = Inr generated
       \<and> length generated = 2)"
proof -
  have p: "parse_generated 2 (generated_json 2) = Some (Trends (replicate 2 generated_item))"
    by (simp add: parse_generated_def)
  have "\<exists>generated.
         fetchTrends (parse_generated 2) (generative_env (generated_json 2)) = Inr generated
       \<and> length generated = length (replicate 2 generated_item)"
    using fetchTrends_length_by_tier
      [where env = "generative_env (generated_json 2)" and parse = "parse_generated 2"
         and ?e1.0 = TypeError and ?e2.0 = TypeError and content = "generated_json 2"
         and tokens = None and ts = "replicate 2 generated_item"]
      generative_env_sources [of "generated_json 2"] generative_env_call [of "generated_json 2"] p
    by blast
  then obtain generated where
    "fetchTrends (parse_generated 2) (generative_env (generated_json 2)) = Inr generated"
    and "length generated = length (replicate 2 generated_item)"
    by blast
  then have "fetchTrends (parse_generated 2) (generative_env (generated_json 2)) = Inr generated
       \<and> length generated = 2"
    by simp
  then have "\<exists>generated.
         fetchTrends (parse_generated 2) (generative_env (generated_json 2)) = Inr generated
       \<and> length generated = 2" ..
  with generative_env_sources [of "generated_json 2"] generative_env_call [of "generated_json 2"] p
  show ?thesis by (intro conjI)
qed

section \<open>Properties of the analysis client\<close>

lemma completion_attempt_no_key:
  "getApiKey storage = None \<or> getApiKey storage = Some [] \<Longrightarrow>
   completion_attempt parse storage reply = Inl (Error MISSING_API_KEY)"
  by (simp add: completion_attempt_def callDeepSeek_no_key)

lemma is_missing_key_literal: "is_missing_key (Error MISSING_API_KEY)"
  by (simp add: is_missing_key_def)

lemma analysis_failed_not_missing_key: "\<not> is_missing_key (Error analysis_failed)"
  by (simp add: is_missing_key_def analysis_failed_def MISSING_API_KEY_def)

lemma api_error_prefix_not_missing_key: "api_error_prefix @ statusText \<noteq> MISSING_API_KEY"
  by (simp add: api_error_prefix_def MISSING_API_KEY_def)

lemma MISSING_API_KEY_not_empty: "MISSING_API_KEY \<noteq> []" "[] \<noteq> MISSING_API_KEY"
  by (simp_all add: MISSING_API_KEY_def)

text \<open>
  With a key stored, the only failure that is taken for a missing key is an error status
  whose body carries the literal message.
\<close>

lemma missing_key_with_key:
  assumes "getApiKey storage = Some k" and "k \<noteq> []"
  shows "(\<exists>e. completion_attempt parse storage reply = Inl e \<and> is_missing_key e)
     \<longleftrightarrow> (\<exists>statusText. reply = Http_error (Some MISSING_API_KEY) statusText)"
  using assms api_error_prefix_not_missing_key MISSING_API_KEY_not_empty
  by (cases reply)
     (auto simp: completion_attempt_def callDeepSeek_def is_missing_key_def
           split: option.splits)

text \<open>
  Claim C4, amended. The functions tell a missing credential from other failures by the
  message \<^verbatim>\<open>MISSING_API_KEY\<close> of the error. Without a stored key all three raise
  that error. An error with that message is re-raised by all three. On any other failure
  \<^verbatim>\<open>analyzeTrendWithAI\<close> returns the fallback record (score 0, every label U+672A
  U+77E5, no usage), \<^verbatim>\<open>analyzeGlobalTrends\<close> raises the error \<^verbatim>\<open>Analysis failed\<close>,
  and \<^verbatim>\<open>identifyBigEvents\<close> returns an empty event list. With a key stored, the one
  failure that carries the message is an error status whose body has it as its message.
\<close>

theorem analysis_failure_policies:
  "(getApiKey storage = None \<or> getApiKey storage = Some [] \<longrightarrow>
        analyzeTrendWithAI parse storage reply trendTitle = Inl (Error MISSING_API_KEY)
      \<and> analyzeGlobalTrends parse storage reply items = Inl (Error MISSING_API_KEY)
      \<and> identifyBigEvents parse_events storage reply items = Inl (Error MISSING_API_KEY))
   \<and> (completion_attempt parse storage reply = Inl e \<and> is_missing_key e \<longrightarrow>
        analyzeTrendWithAI parse storage reply trendTitle = Inl e
      \<and> analyzeGlobalTrends parse storage reply items = Inl e)
   \<and> (completion_attempt parse_events storage reply = Inl e \<and> is_missing_key e \<longrightarrow>
        identifyBigEvents parse_events storage reply items = Inl e)
   \<and> (completion_attempt parse storage reply = Inl e \<and> \<not> is_missing_key e \<longrightarrow>
        analyzeTrendWithAI parse storage reply trendTitle
          = Inr \<lparr>data = fallback_analysis, usage = None\<rparr>
      \<and> analyzeGlobalTrends parse storage reply items = Inl (Error analysis_failed))
   \<and> (completion_attempt parse_events storage reply = Inl e \<and> \<not> is_missing_key e \<longrightarrow>
        identifyBigEvents parse_events storage reply items
          = Inr \<lparr>data = Value \<lparr>events = Some []\<rparr>, usage = None\<rparr>)
   \<and> (getApiKey storage = Some k \<and> k \<noteq> []
        \<and> (\<forall>statusText. reply \<noteq> Http_error (Some MISSING_API_KEY) statusText)
        \<and> completion_attempt parse storage reply = Inl e \<longrightarrow> \<not> is_missing_key e)
   \<and> (getApiKey storage = Some k \<and> k \<noteq> [] \<longrightarrow>
        completion_attempt parse storage (Http_error (Some MISSING_API_KEY) statusText)
          = Inl (Error MISSING_API_KEY))
   \<and> \<not> is_missing_key (Error analysis_failed)
   \<and> viralityScore fallback_analysis = 0
   \<and> label (sentiment fallback_analysis) = unknown_label
   \<and> label (domain fallback_analysis) = unknown_label
   \<and> label (contentForm fallback_analysis) = unknown_label
   \<and> label (lifecycle fallback_analysis) = unknown_label"
proof (intro conjI impI)
  assume k: "getApiKey storage = None \<or> getApiKey storage = Some []"
  show "analyzeTrendWithAI parse storage reply trendTitle = Inl (Error MISSING_API_KEY)"
    using completion_attempt_no_key [OF k, of parse reply] is_missing_key_literal
    by (simp add: analyzeTrendWithAI_def)
  show "analyzeGlobalTrends parse storage reply items = Inl (Error MISSING_API_KEY)"
    using completion_attempt_no_key [OF k, of parse reply] is_missing_key_literal
    by (simp add: analyzeGlobalTrends_def)
  show "identifyBigEvents parse_events storage reply items = Inl (Error MISSING_API_KEY)"
    using completion_attempt_no_key [OF k, of parse_events reply] is_missing_key_literal
    by (simp add: identifyBigEvents_def)
next
  assume a: "completion_attempt parse storage reply = Inl e \<and> is_missing_key e"
  then show "analyzeTrendWithAI parse storage reply trendTitle = Inl e"
    by (simp add: analyzeTrendWithAI_def)
  from a show "analyzeGlobalTrends parse storage reply items = Inl e"
    by (simp add: analyzeGlobalTrends_def)
next
  assume "completion_attempt parse_events storage reply = Inl e \<and> is_missing_key e"
  then show "identifyBigEvents parse_events storage reply items = Inl e"
    by (simp add: identifyBigEvents_def)
next
  assume a: "completion_attempt parse storage reply = Inl e \<and> \<not> is_missing_key e"
  then show "analyzeTrendWithAI parse storage reply trendTitle
          = Inr \<lparr>data = fallback_analysis, usage = None\<rparr>"
    by (simp add: analyzeTrendWithAI_def)
  from a show "analyzeGlobalTrends parse storage reply items = Inl (Error analysis_failed)"
    by (simp add: analyzeGlobalTrends_def)
next
  assume "completion_attempt parse_events storage reply = Inl e \<and> \<not> is_missing_key e"
  then show "identifyBigEvents parse_events storage reply items
          = Inr \<lparr>data = Value \<lparr>events = Some []\<rparr>, usage = None\<rparr>"
    by (simp add: identifyBigEvents_def)
next
  assume a: "getApiKey storage = Some k \<and> k \<noteq> []
        \<and> (\<forall>statusText. reply \<noteq> Http_error (Some MISSING_API_KEY) statusText)
        \<and> completion_attempt parse storage reply = Inl e"
  show "\<not> is_missing_key e"
  proof
    assume "is_missing_key e"
    with a have "\<exists>e. completion_attempt parse storage reply = Inl e \<and> is_missing_key e"
      by blast
    with a missing_key_with_key [of storage k parse reply] show False by blast
  qed
next
  assume "getApiKey storage = Some k \<and> k \<noteq> []"
  then show "completion_attempt parse storage (Http_error (Some MISSING_API_KEY) statusText)
          = Inl (Error MISSING_API_KEY)"
    using MISSING_API_KEY_not_empty
    by (simp add: completion_attempt_def callDeepSeek_def)
next
  show "\<not> is_missing_key (Error analysis_failed)" by (rule analysis_failed_not_missing_key)
qed (simp_all add: fallback_analysis_def)

lemma keyed_storage_key: "getApiKey keyed_storage = Some [0x006B]"
  by (simp add: getApiKey_def keyed_storage_def)

lemma keyed_storage_rejected:
  "completion_attempt parse keyed_storage Fetch_rejected = Inl TypeError"
  by (simp add: completion_attempt_def callDeepSeek_def keyed_storage_key)

text \<open>
  A rejected \<^verbatim>\<open>fetch\<close> with a key stored: fallback record, generic error, empty event
  list. No key stored: the missing-key error.
\<close>

theorem analysis_failure_policies_witness:
  "getApiKey keyed_storage = Some [0x006B]
   \<and> completion_attempt sample_parse keyed_storage Fetch_rejected = Inl TypeError
   \<and> \<not> is_missing_key TypeError
   \<and> analyzeTrendWithAI sample_parse keyed_storage Fetch_rejected []
       = Inr \<lparr>data = fallback_analysis, usage = None\<rparr>
   \<and> analyzeGlobalTrends sample_parse keyed_storage Fetch_rejected [] = Inl (Error analysis_failed)
   \<and> identifyBigEvents (\<lambda>content. None) keyed_storage Fetch_rejected []
       = Inr \<lparr>data = Value \<lparr>events = Some []\<rparr>, usage = None\<rparr>
   \<and> getApiKey Map.empty = None
   \<and> analyzeTrendWithAI sample_parse Map.empty Fetch_rejected [] = Inl (Error MISSING_API_KEY)"
proof -
  have k: "getApiKey Map.empty = None" by (simp add: getApiKey_def)
  note a = analysis_failure_policies
    [where storage = keyed_storage and parse = sample_parse and reply = Fetch_rejected
       and trendTitle = "[]" and items = "[]" and parse_events = "\<lambda>content. None"
       and e = TypeError]
  note b = analysis_failure_policies
    [where storage = Map.empty and parse = sample_parse and reply = Fetch_rejected
       and trendTitle = "[]" and items = "[]" and parse_events = "\<lambda>content. None"
       and e = TypeError]
  from a have n: "\<not> is_missing_key TypeError"
    using keyed_storage_key keyed_storage_rejected [of sample_parse] by auto
  from a n keyed_storage_rejected [of sample_parse]
  have 1: "analyzeTrendWithAI sample_parse keyed_storage Fetch_rejected []
       = Inr \<lparr>data = fallback_analysis, usage = None\<rparr>"
    and 2: "analyzeGlobalTrends sample_parse keyed_storage Fetch_rejected []
       = Inl (Error analysis_failed)"
    by blast+
  from a n keyed_storage_rejected [of "\<lambda>content. None"]
  have 3: "identifyBigEvents (\<lambda>content. None) keyed_storage Fetch_rejected []
       = Inr \<lparr>data = Value \<lparr>events = Some []\<rparr>, usage = None\<rparr>"
    by blast
  from b k have 4: "analyzeTrendWithAI sample_parse Map.empty Fetch_rejected []
       = Inl (Error MISSING_API_KEY)"
    by blast
  from keyed_storage_key keyed_storage_rejected [of sample_parse] n 1 2 3 k 4
  show ?thesis by (intro conjI)
qed

text \<open>
  Claim C4 as stated fails when a credential is configured and the service answers with an
  error status whose message is the literal \<^verbatim>\<open>MISSING_API_KEY\<close>:
  \<^verbatim>\<open>analyzeTrendWithAI\<close> raises and returns no fallback record, and
  \<^verbatim>\<open>identifyBigEvents\<close> raises and returns no empty list.
\<close>

theorem analyzeTrendWithAI_literal_message_counterexample:
  "getApiKey keyed_storage = Some [0x006B]
   \<and> analyzeTrendWithAI sample_parse keyed_storage (Http_error (Some MISSING_API_KEY) []) []
       = Inl (Error MISSING_API_KEY)
   \<and> analyzeTrendWithAI sample_parse keyed_storage (Http_error (Some MISSING_API_KEY) []) []
       \<noteq> Inr \<lparr>data = fallback_analysis, usage = None\<rparr>
   \<and> identifyBigEvents (\<lambda>content. None) keyed_storage (Http_error (Some MISSING_API_KEY) []) []
       = Inl (Error MISSING_API_KEY)"
  using MISSING_API_KEY_not_empty
  by (simp add: analyzeTrendWithAI_def identifyBigEvents_def completion_attempt_def
      callDeepSeek_def keyed_storage_key is_missing_key_def)

section \<open>Properties of the aggregate analysis\<close>













section \<open>Properties of the analysis cache\<close>

lemma cacheKey_inject: "cacheKey a = cacheKey b \<longleftrightarrow> a = b"
  by (simp add: cacheKey_def)

lemma cache_get_hit:
  "storage (cacheKey t) = Some s \<Longrightarrow> s \<noteq> [] \<Longrightarrow> parse s = Some a \<Longrightarrow>
   cache_get parse t storage = (Some a, storage)"
  by (simp add: cache_get_def)

lemma cache_get_corrupt:
  "storage (cacheKey t) = Some s \<Longrightarrow> s \<noteq> [] \<Longrightarrow> parse s = None \<Longrightarrow>
   cache_get parse t storage = (None, storage(cacheKey t := None))"
  by (simp add: cache_get_def)

lemma cache_get_empty:
  "storage (cacheKey t) = Some [] \<Longrightarrow> cache_get parse t storage = (None, storage)"
  by (simp add: cache_get_def)

lemma cache_get_missing:
  "storage (cacheKey t) = None \<Longrightarrow> cache_get parse t storage = (None, storage)"
  by (simp add: cache_get_def)

text \<open>
  Claim C5, amended. For a record that \<^verbatim>\<open>JSON.parse\<close> reads back from its
  (non-empty) \<^verbatim>\<open>JSON.stringify\<close> text, a put followed by a get of the same title
  returns the record, and a second put overwrites the first. When the entry is a non-empty
  string that does not parse, the get reports absent, removes the entry and leaves every
  other key alone. When the entry is the empty string, the get reports absent and leaves
  the storage as it is.
\<close>

theorem cache_get_put:
  "(parse (stringify a) = Some a \<and> stringify a \<noteq> [] \<longrightarrow>
      cache_get parse t (cache_put stringify t a storage)
        = (Some a, cache_put stringify t a storage))
   \<and> cache_put stringify t b (cache_put stringify t a storage) = cache_put stringify t b storage
   \<and> (storage (cacheKey t) = Some s \<and> s \<noteq> [] \<and> parse s = None \<longrightarrow>
        fst (cache_get parse t storage) = None
      \<and> snd (cache_get parse t storage) (cacheKey t) = None
      \<and> (\<forall>k. k \<noteq> cacheKey t \<longrightarrow> snd (cache_get parse t storage) k = storage k))
   \<and> (storage (cacheKey t) = Some [] \<longrightarrow> cache_get parse t storage = (None, storage))"
proof (intro conjI impI allI)
  assume "parse (stringify a) = Some a \<and> stringify a \<noteq> []"
  then show "cache_get parse t (cache_put stringify t a storage)
        = (Some a, cache_put stringify t a storage)"
    by (intro cache_get_hit [where s = "stringify a"]) (simp_all add: cache_put_def)
next
  show "cache_put stringify t b (cache_put stringify t a storage) = cache_put stringify t b storage"
    by (simp add: cache_put_def)
next
  assume c: "storage (cacheKey t) = Some s \<and> s \<noteq> [] \<and> parse s = None"
  then have g: "cache_get parse t storage = (None, storage(cacheKey t := None))"
    by (simp add: cache_get_corrupt)
  show "fst (cache_get parse t storage) = None" by (simp add: g)
  show "snd (cache_get parse t storage) (cacheKey t) = None" by (simp add: g)
  fix k assume "k \<noteq> cacheKey t"
  then show "snd (cache_get parse t storage) k = storage k" by (simp add: g)
next
  assume "storage (cacheKey t) = Some []"
  then show "cache_get parse t storage = (None, storage)" by (rule cache_get_empty)
qed

lemma sample_codec_fallback:
  "sample_parse (sample_stringify fallback_analysis) = Some fallback_analysis"
  "sample_stringify fallback_analysis \<noteq> []"
  by (simp_all add: sample_parse_def sample_stringify_def fallback_json_def)

lemma sample_parse_rejects:
  "sample_parse [] = None" "sample_parse [0x007B] = None"
  by (simp_all add: sample_parse_def fallback_json_def scored_json_def)

text \<open>The fallback record round-trips; a lone brace under the key is removed.\<close>

theorem cache_get_put_witness:
  "sample_parse (sample_stringify fallback_analysis) = Some fallback_analysis
   \<and> sample_stringify fallback_analysis \<noteq> []
   \<and> cache_get sample_parse [0x624B, 0x673A]
        (cache_put sample_stringify [0x624B, 0x673A] fallback_analysis Map.empty)
       = (Some fallback_analysis,
          cache_put sample_stringify [0x624B, 0x673A] fallback_analysis Map.empty)
   \<and> [cacheKey [0x624B, 0x673A] \<mapsto> [0x007B]] (cacheKey [0x624B, 0x673A]) = Some [0x007B]
   \<and> sample_parse [0x007B] = None
   \<and> fst (cache_get sample_parse [0x624B, 0x673A] [cacheKey [0x624B, 0x673A] \<mapsto> [0x007B]]) = None
   \<and> snd (cache_get sample_parse [0x624B, 0x673A] [cacheKey [0x624B, 0x673A] \<mapsto> [0x007B]])
        (cacheKey [0x624B, 0x673A]) = None"
proof -
  note rt = cache_get_put [of sample_parse sample_stringify fallback_analysis "[0x624B, 0x673A]"
      Map.empty]
  note co = cache_get_put [of sample_parse sample_stringify fallback_analysis "[0x624B, 0x673A]"
      "[cacheKey [0x624B, 0x673A] \<mapsto> [0x007B]]" _ "[0x007B]"]
  have e: "[cacheKey [0x624B, 0x673A] \<mapsto> [0x007B]] (cacheKey [0x624B, 0x673A]) = Some [0x007B]"
    by simp
  have ne: "[0x007B :: 16 word] \<noteq> []" by simp
  from rt sample_codec_fallback
  have 1: "cache_get sample_parse [0x624B, 0x673A]
        (cache_put sample_stringify [0x624B, 0x673A] fallback_analysis Map.empty)
       = (Some fallback_analysis,
          cache_put sample_stringify [0x624B, 0x673A] fallback_analysis Map.empty)"
    by blast
  from co e ne sample_parse_rejects(2)
  have 2: "fst (cache_get sample_parse [0x624B, 0x673A] [cacheKey [0x624B, 0x673A] \<mapsto> [0x007B]])
       = None"
    and 3: "snd (cache_get sample_parse [0x624B, 0x673A] [cacheKey [0x624B, 0x673A] \<mapsto> [0x007B]])
        (cacheKey [0x624B, 0x673A]) = None"
    by blast+
  from sample_codec_fallback 1 e sample_parse_rejects(2) 2 3 show ?thesis by (intro conjI)
qed

text \<open>
  Claim C5 as stated fails for the empty string: it does not parse, the get reports
  absent, and the entry is still there afterwards.
\<close>

theorem cache_get_empty_entry_counterexample:
  "[cacheKey [0x624B, 0x673A] \<mapsto> []] (cacheKey [0x624B, 0x673A]) = Some []
   \<and> sample_parse [] = None
   \<and> fst (cache_get sample_parse [0x624B, 0x673A] [cacheKey [0x624B, 0x673A] \<mapsto> []]) = None
   \<and> snd (cache_get sample_parse [0x624B, 0x673A] [cacheKey [0x624B, 0x673A] \<mapsto> []])
        (cacheKey [0x624B, 0x673A]) = Some []
   \<and> snd (cache_get sample_parse [0x624B, 0x673A] [cacheKey [0x624B, 0x673A] \<mapsto> []])
        (cacheKey [0x624B, 0x673A]) \<noteq> None"
  by (simp add: cache_get_def sample_parse_rejects)

section \<open>Properties of the analysis modal\<close>

lemma sample_codec_scored:
  "sample_parse scored_json = Some scored_analysis"
  "sample_stringify scored_analysis = scored_json"
  "scored_json \<noteq> []"
  "scored_analysis \<noteq> fallback_analysis"
proof -
  have "viralityScore scored_analysis = 87" by (simp add: scored_analysis_def)
  moreover have "viralityScore fallback_analysis = 0" by (simp add: fallback_analysis_def)
  ultimately show ne: "scored_analysis \<noteq> fallback_analysis" by auto
  have "scored_json \<noteq> fallback_json" by (simp add: scored_json_def fallback_json_def)
  then show "sample_parse scored_json = Some scored_analysis" by (simp add: sample_parse_def)
  from ne show "sample_stringify scored_analysis = scored_json"
    by (simp add: sample_stringify_def)
  show "scored_json \<noteq> []" by (simp add: scored_json_def)
qed

lemma app_keys_not_cache:
  "API_KEY_STORAGE_KEY \<noteq> cacheKey t"
  "theme_key \<noteq> cacheKey t"
  "bg_image_key \<noteq> cacheKey t"
  "bg_opacity_key \<noteq> cacheKey t"
  by (simp_all add: API_KEY_STORAGE_KEY_def theme_key_def bg_image_key_def bg_opacity_key_def
      cacheKey_def cache_prefix_def)

lemma unmount_storage: "modal_storage (unmount st) = modal_storage st"
  by (simp add: unmount_def)

lemma unmount_titles:
  "c \<in> set (pending_calls (unmount st)) \<Longrightarrow> call_title c \<in> call_title ` set (pending_calls st)"
  by (auto simp: unmount_def)

lemma effect_begin_hit:
  assumes "modal_storage st (cacheKey (title tr)) = Some s" and "s \<noteq> []" and "parse s = Some a"
  shows "effect_begin parse tr st
     = st\<lparr>modal_storage := modal_storage st, modal_analysis := Some a,
          modal_loading := False, modal_error := None\<rparr>"
  using assms by (simp add: effect_begin_def cache_get_hit)

lemma effect_begin_miss:
  assumes "modal_storage st (cacheKey (title tr)) = None"
  shows "effect_begin parse tr st
     = st\<lparr>modal_storage := modal_storage st, modal_analysis := None,
          modal_loading := True, modal_error := None,
          pending_calls := pending_calls st
            @ [\<lparr>call_title = title tr, call_storage = modal_storage st, call_live = True\<rparr>],
          analysis_calls := analysis_calls st + 1\<rparr>"
  using assms by (simp add: effect_begin_def cache_get_missing)

lemma effect_begin_frame:
  "k \<noteq> cacheKey (title tr) \<Longrightarrow> modal_storage (effect_begin parse tr st) k = modal_storage st k"
  by (auto simp: effect_begin_def cache_get_def split: option.splits prod.splits if_splits)

lemma effect_begin_titles:
  "c \<in> set (pending_calls (effect_begin parse tr st)) \<Longrightarrow>
   call_title c = title tr \<or> c \<in> set (pending_calls st)"
  by (auto simp: effect_begin_def cache_get_def split: option.splits prod.splits if_splits)

lemma effect_settle_frame:
  "k \<noteq> cacheKey (call_title call) \<Longrightarrow>
   modal_storage (effect_settle parse stringify reply call st) k = modal_storage st k"
  by (auto simp: effect_settle_def cache_put_def split: sum.splits)

lemma effect_settle_pending:
  "pending_calls (effect_settle parse stringify reply call st) = pending_calls st"
  by (auto simp: effect_settle_def split: sum.splits)

lemma effect_settle_fallback:
  assumes "completion_attempt parse (call_storage call) reply = Inl e" and "\<not> is_missing_key e"
  shows "effect_settle parse stringify reply call st
     = (if call_live call
        then st\<lparr>modal_analysis := Some fallback_analysis, modal_loading := False\<rparr>
        else st)
         \<lparr>modal_storage :=
            cache_put stringify (call_title call) fallback_analysis (modal_storage st)\<rparr>"
  using assms by (simp add: effect_settle_def analyzeTrendWithAI_def)

lemma effect_settle_success:
  assumes "completion_attempt parse (call_storage call) reply = Inr response"
  shows "effect_settle parse stringify reply call st
     = (if call_live call
        then st\<lparr>modal_analysis := Some (data response), modal_loading := False\<rparr>
        else st)
         \<lparr>modal_storage :=
            cache_put stringify (call_title call) (data response) (modal_storage st)\<rparr>"
  using assms by (simp add: effect_settle_def analyzeTrendWithAI_def)

lemma effect_settle_missing_key:
  assumes "completion_attempt parse (call_storage call) reply = Inl e" and "is_missing_key e"
  shows "effect_settle parse stringify reply call st
     = (if call_live call
        then st\<lparr>modal_error := Some MISSING_KEY, modal_loading := False\<rparr>
        else st)"
  using assms by (simp add: effect_settle_def analyzeTrendWithAI_def)

lemma others_of_nth:
  assumes "x \<in> set (take i xs @ drop (Suc i) xs)"
  shows "\<exists>j<length xs. j \<noteq> i \<and> xs ! j = x"
proof -
  from assms consider "x \<in> set (take i xs)" | "x \<in> set (drop (Suc i) xs)" by auto
  then show ?thesis
  proof cases
    case 1
    then obtain j where "j < length (take i xs)" "take i xs ! j = x"
      by (auto simp: in_set_conv_nth)
    then have "j < length xs" "j \<noteq> i" "xs ! j = x" by simp_all
    then show ?thesis by blast
  next
    case 2
    then obtain j where j: "j < length (drop (Suc i) xs)" "drop (Suc i) xs ! j = x"
      by (auto simp: in_set_conv_nth)
    then have "Suc i + j < length xs" "Suc i + j \<noteq> i" "xs ! (Suc i + j) = x" by simp_all
    then show ?thesis by blast
  qed
qed

lemma others_subset: "x \<in> set (take i xs @ drop (Suc i) xs) \<Longrightarrow> x \<in> set xs"
  by (auto dest: in_set_takeD in_set_dropD)

text \<open>
  An entry that parses stays as it is for as long as no call for its title is pending, and
  no such call is made while the entry is there.
\<close>

lemma user_step_keeps_entry:
  assumes rt: "parse s = Some a" "s \<noteq> []"
    and entry: "modal_storage st (cacheKey t) = Some s"
    and quiet: "\<forall>c \<in> set (pending_calls st). call_title c \<noteq> t"
  shows "modal_storage (user_step parse stringify action st) (cacheKey t) = Some s
       \<and> (\<forall>c \<in> set (pending_calls (user_step parse stringify action st)). call_title c \<noteq> t)"
proof (cases action)
  case (Open_modal trend)
  show ?thesis
  proof (cases "title trend = t")
    case True
    with entry have "modal_storage st (cacheKey (title trend)) = Some s" by simp
    from effect_begin_hit [where parse = parse and s = s and a = a, OF this rt(2) rt(1)]
      entry quiet Open_modal
    show ?thesis by simp
  next
    case False
    then have "cacheKey t \<noteq> cacheKey (title trend)" by (simp add: cacheKey_inject)
    from effect_begin_frame [OF this] entry
    have "modal_storage (effect_begin parse trend st) (cacheKey t) = Some s" by simp
    moreover have "\<forall>c \<in> set (pending_calls (effect_begin parse trend st)). call_title c \<noteq> t"
    proof
      fix c assume "c \<in> set (pending_calls (effect_begin parse trend st))"
      then have "call_title c = title trend \<or> c \<in> set (pending_calls st)"
        by (rule effect_begin_titles)
      with quiet False show "call_title c \<noteq> t" by auto
    qed
    ultimately show ?thesis using Open_modal by simp
  qed
next
  case Close_modal
  have "\<forall>c \<in> set (pending_calls (unmount st)). call_title c \<noteq> t"
  proof
    fix c assume "c \<in> set (pending_calls (unmount st))"
    then have "call_title c \<in> call_title ` set (pending_calls st)" by (rule unmount_titles)
    with quiet show "call_title c \<noteq> t" by auto
  qed
  with entry Close_modal show ?thesis by (simp add: unmount_storage)
next
  case (Call_settles i reply)
  show ?thesis
  proof (cases "i < length (pending_calls st)")
    case False
    with entry quiet Call_settles show ?thesis by simp
  next
    case True
    let ?call = "pending_calls st ! i"
    let ?rest = "st\<lparr>pending_calls := take i (pending_calls st) @ drop (Suc i) (pending_calls st)\<rparr>"
    from True have "?call \<in> set (pending_calls st)" by simp
    with quiet have "call_title ?call \<noteq> t" by blast
    then have "cacheKey t \<noteq> cacheKey (call_title ?call)" by (simp add: cacheKey_inject)
    from effect_settle_frame [OF this] entry
    have "modal_storage (effect_settle parse stringify reply ?call ?rest) (cacheKey t) = Some s"
      by simp
    moreover have "\<forall>c \<in> set (pending_calls (effect_settle parse stringify reply ?call ?rest)).
        call_title c \<noteq> t"
    proof
      fix c assume "c \<in> set (pending_calls (effect_settle parse stringify reply ?call ?rest))"
      then have "c \<in> set (take i (pending_calls st) @ drop (Suc i) (pending_calls st))"
        by (simp add: effect_settle_pending)
      then have "c \<in> set (pending_calls st)" by (rule others_subset)
      with quiet show "call_title c \<noteq> t" by auto
    qed
    ultimately show ?thesis using Call_settles True by simp
  qed
qed (use entry quiet app_keys_not_cache [of t] in \<open>auto simp: setApiKey_def\<close>)

lemma user_run_keeps_entry:
  assumes rt: "parse s = Some a" "s \<noteq> []"
  shows "modal_storage st (cacheKey t) = Some s \<Longrightarrow>
     \<forall>c \<in> set (pending_calls st). call_title c \<noteq> t \<Longrightarrow>
     modal_storage (user_run parse stringify actions st) (cacheKey t) = Some s
     \<and> (\<forall>c \<in> set (pending_calls (user_run parse stringify actions st)). call_title c \<noteq> t)"
proof (induction actions arbitrary: st)
  case Nil
  then show ?case by (simp add: user_run_def)
next
  case (Cons x rest)
  from user_step_keeps_entry
    [where parse = parse and s = s and a = a and stringify = stringify and action = x,
     OF rt Cons.prems]
  have "modal_storage (user_step parse stringify x st) (cacheKey t) = Some s"
    and "\<forall>c \<in> set (pending_calls (user_step parse stringify x st)). call_title c \<noteq> t"
    by simp_all
  from Cons.IH [OF this] show ?case by (simp add: user_run_def)
qed

text \<open>
  Claim C10, amended. A trend is selected whose title has no cache entry, with a key
  stored: the effect makes one call of the analysis client, with the storage as it is.
  Whatever happens next, suppose the call is still pending, no other pending call is for
  the same title, and the call settles with a completion attempt that fails otherwise than
  by an error status with the literal message \<^verbatim>\<open>MISSING_API_KEY\<close>. Then the fallback
  record is written to the cache under the title's key, and it is shown if the modal that
  made the call is still mounted. Provided the fallback record round-trips through
  \<^verbatim>\<open>JSON.stringify\<close> and \<^verbatim>\<open>JSON.parse\<close>: whatever happens afterwards, the entry is
  still there, and selecting a trend of that title again shows the fallback record, makes
  no call of the analysis client and leaves the storage as it is.
\<close>

theorem fallback_cached_and_served:
  assumes no_entry: "modal_storage st (cacheKey (title tr)) = None"
    and key: "getApiKey (modal_storage st) = Some k \<and> k \<noteq> []"
    and mid: "st_mid = user_run parse stringify (Open_modal tr # between) st"
    and pending: "i < length (pending_calls st_mid)
             \<and> pending_calls st_mid ! i
                = \<lparr>call_title = title tr, call_storage = modal_storage st, call_live = live\<rparr>"
    and alone: "\<forall>j < length (pending_calls st_mid).
                  j \<noteq> i \<longrightarrow> call_title (pending_calls st_mid ! j) \<noteq> title tr"
    and fails: "completion_attempt parse (modal_storage st) reply = Inl e
             \<and> (\<forall>statusText. reply \<noteq> Http_error (Some MISSING_API_KEY) statusText)"
    and rt: "parse (stringify fallback_analysis) = Some fallback_analysis
             \<and> stringify fallback_analysis \<noteq> []"
    and cached: "st_cached = user_step parse stringify (Call_settles i reply) st_mid"
    and later: "st_later = user_run parse stringify actions st_cached"
    and same: "title tr_again = title tr"
  shows "pending_calls (user_step parse stringify (Open_modal tr) st)
           = pending_calls st
             @ [\<lparr>call_title = title tr, call_storage = modal_storage st, call_live = True\<rparr>]
       \<and> analysis_calls (user_step parse stringify (Open_modal tr) st) = analysis_calls st + 1
       \<and> modal_storage st_cached (cacheKey (title tr)) = Some (stringify fallback_analysis)
       \<and> (live \<longrightarrow> modal_analysis st_cached = Some fallback_analysis)
       \<and> modal_storage st_later (cacheKey (title tr)) = Some (stringify fallback_analysis)
       \<and> modal_analysis (user_step parse stringify (Open_modal tr_again) st_later)
           = Some fallback_analysis
       \<and> modal_error (user_step parse stringify (Open_modal tr_again) st_later) = None
       \<and> analysis_calls (user_step parse stringify (Open_modal tr_again) st_later)
           = analysis_calls st_later
       \<and> pending_calls (user_step parse stringify (Open_modal tr_again) st_later)
           = pending_calls st_later
       \<and> modal_storage (user_step parse stringify (Open_modal tr_again) st_later)
           = modal_storage st_later"
proof -
  let ?call = "\<lparr>call_title = title tr, call_storage = modal_storage st, call_live = live\<rparr>"
  let ?rest = "st_mid\<lparr>pending_calls := take i (pending_calls st_mid)
                                         @ drop (Suc i) (pending_calls st_mid)\<rparr>"
  from fails have f1: "completion_attempt parse (call_storage ?call) reply = Inl e" by simp
  have f2: "\<not> is_missing_key e"
  proof
    assume "is_missing_key e"
    with fails have "\<exists>e. completion_attempt parse (modal_storage st) reply = Inl e \<and> is_missing_key e"
      by blast
    with key fails missing_key_with_key [of "modal_storage st" k parse reply]
    show False by blast
  qed
  from rt have r: "parse (stringify fallback_analysis) = Some fallback_analysis"
    "stringify fallback_analysis \<noteq> []" by simp_all
  note opened = effect_begin_miss [OF no_entry, of parse]
  have p0: "pending_calls (user_step parse stringify (Open_modal tr) st)
      = pending_calls st
        @ [\<lparr>call_title = title tr, call_storage = modal_storage st, call_live = True\<rparr>]"
    by (simp add: opened)
  have c0: "analysis_calls (user_step parse stringify (Open_modal tr) st) = analysis_calls st + 1"
    by (simp add: opened)
  from pending have st_cached: "st_cached = effect_settle parse stringify reply ?call ?rest"
    unfolding cached by simp
  note settled = effect_settle_fallback [OF f1 f2, of stringify ?rest]
  have e1: "modal_storage st_cached (cacheKey (title tr)) = Some (stringify fallback_analysis)"
    unfolding st_cached settled by (simp add: cache_put_def)
  have a1: "live \<longrightarrow> modal_analysis st_cached = Some fallback_analysis"
    unfolding st_cached settled by simp
  have q1: "\<forall>c \<in> set (pending_calls st_cached). call_title c \<noteq> title tr"
  proof
    fix c assume "c \<in> set (pending_calls st_cached)"
    then have "c \<in> set (take i (pending_calls st_mid) @ drop (Suc i) (pending_calls st_mid))"
      unfolding st_cached by (simp add: effect_settle_pending)
    from others_of_nth [OF this] alone show "call_title c \<noteq> title tr" by auto
  qed
  from user_run_keeps_entry
    [where parse = parse and s = "stringify fallback_analysis" and a = fallback_analysis
       and stringify = stringify and actions = actions,
     OF r e1 q1]
  have e2: "modal_storage st_later (cacheKey (title tr)) = Some (stringify fallback_analysis)"
    unfolding later by simp
  then have "modal_storage st_later (cacheKey (title tr_again)) = Some (stringify fallback_analysis)"
    using same by simp
  note hit = effect_begin_hit
    [where parse = parse and s = "stringify fallback_analysis" and a = fallback_analysis,
     OF this r(2) r(1)]
  have "modal_analysis (user_step parse stringify (Open_modal tr_again) st_later)
           = Some fallback_analysis"
    and "modal_error (user_step parse stringify (Open_modal tr_again) st_later) = None"
    and "analysis_calls (user_step parse stringify (Open_modal tr_again) st_later)
           = analysis_calls st_later"
    and "pending_calls (user_step parse stringify (Open_modal tr_again) st_later)
           = pending_calls st_later"
    and "modal_storage (user_step parse stringify (Open_modal tr_again) st_later)
           = modal_storage st_later"
    by (simp_all add: hit)
  with p0 c0 e1 a1 e2 show ?thesis by (intro conjI)
qed

lemma closed_modal_no_entry:
  "modal_storage closed_modal (cacheKey (title generated_item)) = None"
  by (simp add: closed_modal_def keyed_storage_def cacheKey_def cache_prefix_def
      API_KEY_STORAGE_KEY_def generated_item_def)

lemma closed_modal_opened:
  "user_step parse stringify (Open_modal generated_item) closed_modal
     = closed_modal
         \<lparr>modal_loading := True,
          pending_calls := [\<lparr>call_title = title generated_item, call_storage = keyed_storage,
                              call_live = True\<rparr>],
          analysis_calls := 1\<rparr>"
  using effect_begin_miss [OF closed_modal_no_entry, of parse]
  by (simp add: closed_modal_def)

text \<open>
  A trend is selected, the theme is toggled, and the call settles with a rejected
  \<^verbatim>\<open>fetch\<close>: the fallback is cached and shown. After the modal is closed, a new key is
  saved and the trend is selected again, a further selection still serves the fallback
  without a call.
\<close>

theorem fallback_cached_and_served_witness:
  "modal_storage closed_modal (cacheKey (title generated_item)) = None
   \<and> getApiKey (modal_storage closed_modal) = Some [0x006B]
   \<and> pending_calls
        (user_run sample_parse sample_stringify
           [Open_modal generated_item, Toggle_theme [0x0064]] closed_modal)
       = [\<lparr>call_title = title generated_item, call_storage = modal_storage closed_modal,
            call_live = True\<rparr>]
   \<and> completion_attempt sample_parse (modal_storage closed_modal) Fetch_rejected = Inl TypeError
   \<and> sample_parse (sample_stringify fallback_analysis) = Some fallback_analysis
   \<and> sample_stringify fallback_analysis \<noteq> []
   \<and> modal_storage
        (user_step sample_parse sample_stringify (Call_settles 0 Fetch_rejected)
           (user_run sample_parse sample_stringify
              [Open_modal generated_item, Toggle_theme [0x0064]] closed_modal))
        (cacheKey (title generated_item))
       = Some (sample_stringify fallback_analysis)
   \<and> modal_analysis
        (user_step sample_parse sample_stringify (Call_settles 0 Fetch_rejected)
           (user_run sample_parse sample_stringify
              [Open_modal generated_item, Toggle_theme [0x0064]] closed_modal))
       = Some fallback_analysis
   \<and> modal_analysis
        (user_step sample_parse sample_stringify (Open_modal generated_item)
           (user_run sample_parse sample_stringify
              [Close_modal, Save_key [0x006B, 0x0032], Open_modal generated_item]
              (user_step sample_parse sample_stringify (Call_settles 0 Fetch_rejected)
                 (user_run sample_parse sample_stringify
                    [Open_modal generated_item, Toggle_theme [0x0064]] closed_modal))))
       = Some fallback_analysis
   \<and> analysis_calls
        (user_step sample_parse sample_stringify (Open_modal generated_item)
           (user_run sample_parse sample_stringify
              [Close_modal, Save_key [0x006B, 0x0032], Open_modal generated_item]
              (user_step sample_parse sample_stringify (Call_settles 0 Fetch_rejected)
                 (user_run sample_parse sample_stringify
                    [Open_modal generated_item, Toggle_theme [0x0064]] closed_modal))))
       = analysis_calls
           (user_run sample_parse sample_stringify
              [Close_modal, Save_key [0x006B, 0x0032], Open_modal generated_item]
              (user_step sample_parse sample_stringify (Call_settles 0 Fetch_rejected)
                 (user_run sample_parse sample_stringify
                    [Open_modal generated_item, Toggle_theme [0x0064]] closed_modal)))"
proof -
  let ?mid = "user_run sample_parse sample_stringify
                [Open_modal generated_item, Toggle_theme [0x0064]] closed_modal"
  note h1 = closed_modal_no_entry
  have h2: "getApiKey (modal_storage closed_modal) = Some [0x006B] \<and> [0x006B :: 16 word] \<noteq> []"
    by (simp add: closed_modal_def keyed_storage_key)
  have p: "pending_calls ?mid
      = [\<lparr>call_title = title generated_item, call_storage = modal_storage closed_modal,
           call_live = True\<rparr>]"
    by (simp only: user_run_def fold_simps id_apply comp_apply closed_modal_opened)
       (simp add: closed_modal_def)
  then have h3: "0 < length (pending_calls ?mid)
      \<and> pending_calls ?mid ! 0
         = \<lparr>call_title = title generated_item, call_storage = modal_storage closed_modal,
              call_live = True\<rparr>"
    by simp
  from p have h4: "\<forall>j < length (pending_calls ?mid).
      j \<noteq> 0 \<longrightarrow> call_title (pending_calls ?mid ! j) \<noteq> title generated_item"
    by simp
  have h5: "completion_attempt sample_parse (modal_storage closed_modal) Fetch_rejected
      = Inl TypeError
      \<and> (\<forall>statusText. Fetch_rejected \<noteq> Http_error (Some MISSING_API_KEY) statusText)"
    by (simp add: closed_modal_def keyed_storage_rejected)
  have h6: "sample_parse (sample_stringify fallback_analysis) = Some fallback_analysis
      \<and> sample_stringify fallback_analysis \<noteq> []"
    using sample_codec_fallback by simp
  note r = fallback_cached_and_served
    [where parse = sample_parse and stringify = sample_stringify and st = closed_modal
       and tr = generated_item and tr_again = generated_item and reply = Fetch_rejected
       and e = TypeError and k = "[0x006B]" and i = 0 and live = True
       and between = "[Toggle_theme [0x0064]]"
       and actions = "[Close_modal, Save_key [0x006B, 0x0032], Open_modal generated_item]",
     OF h1 h2 refl h3 h4 h5 h6 refl refl refl]
  from h1 h2 p h5 h6 r show ?thesis by (intro conjI) simp_all
qed

text \<open>
  Claim C10 as stated fails in two ways. With a key stored, a call that fails with an
  error status whose message is the literal (the reply of claim C4) caches nothing, and
  the modal reports a missing key. And a cached fallback is not kept: a trend is selected,
  the modal is closed while the call is pending, and the trend is selected again, which
  makes a second call; that call fails and the fallback is cached and shown; then the
  first call settles with a completion, and its handler overwrites the entry. The next
  selection of the trend shows the record of that completion, not the fallback.
\<close>

theorem fallback_not_served_counterexample:
  "modal_storage closed_modal (cacheKey (title generated_item)) = None
   \<and> getApiKey (modal_storage closed_modal) = Some [0x006B]
   \<and> modal_storage
        (user_run sample_parse sample_stringify
           [Open_modal generated_item, Call_settles 0 (Http_error (Some MISSING_API_KEY) [])]
           closed_modal)
        (cacheKey (title generated_item)) = None
   \<and> modal_error
        (user_run sample_parse sample_stringify
           [Open_modal generated_item, Call_settles 0 (Http_error (Some MISSING_API_KEY) [])]
           closed_modal) = Some MISSING_KEY
   \<and> modal_storage
        (user_run sample_parse sample_stringify
           [Open_modal generated_item, Close_modal, Open_modal generated_item,
            Call_settles 1 Fetch_rejected]
           closed_modal)
        (cacheKey (title generated_item)) = Some fallback_json
   \<and> modal_analysis
        (user_run sample_parse sample_stringify
           [Open_modal generated_item, Close_modal, Open_modal generated_item,
            Call_settles 1 Fetch_rejected]
           closed_modal) = Some fallback_analysis
   \<and> modal_analysis
        (user_run sample_parse sample_stringify
           [Open_modal generated_item, Close_modal, Open_modal generated_item,
            Call_settles 1 Fetch_rejected, Call_settles 0 (Completion scored_json None),
            Close_modal, Open_modal generated_item]
           closed_modal) = Some scored_analysis
   \<and> analysis_calls
        (user_run sample_parse sample_stringify
           [Open_modal generated_item, Close_modal, Open_modal generated_item,
            Call_settles 1 Fetch_rejected, Call_settles 0 (Completion scored_json None),
            Close_modal, Open_modal generated_item]
           closed_modal) = 2
   \<and> scored_analysis \<noteq> fallback_analysis"
proof -
  let ?t = "title generated_item"
  let ?call = "\<lambda>live. \<lparr>call_title = ?t, call_storage = keyed_storage, call_live = live\<rparr>"
  let ?idle = "\<lparr>modal_storage = keyed_storage, modal_analysis = None, modal_loading = False,
                 modal_error = None, pending_calls = [?call False], analysis_calls = 1\<rparr>"
  let ?again = "\<lparr>modal_storage = keyed_storage, modal_analysis = None, modal_loading = True,
                 modal_error = None, pending_calls = [?call False, ?call True],
                 analysis_calls = 2\<rparr>"
  let ?cached = "\<lparr>modal_storage = keyed_storage(cacheKey ?t \<mapsto> fallback_json),
                   modal_analysis = Some fallback_analysis, modal_loading = False,
                   modal_error = None, pending_calls = [?call False], analysis_calls = 2\<rparr>"
  let ?late = "\<lparr>modal_storage = keyed_storage(cacheKey ?t \<mapsto> scored_json),
                 modal_analysis = Some fallback_analysis, modal_loading = False,
                 modal_error = None, pending_calls = [], analysis_calls = 2\<rparr>"
  let ?closed = "\<lparr>modal_storage = keyed_storage(cacheKey ?t \<mapsto> scored_json),
                   modal_analysis = None, modal_loading = False,
                   modal_error = None, pending_calls = [], analysis_calls = 2\<rparr>"
  let ?served = "\<lparr>modal_storage = keyed_storage(cacheKey ?t \<mapsto> scored_json),
                   modal_analysis = Some scored_analysis, modal_loading = False,
                   modal_error = None, pending_calls = [], analysis_calls = 2\<rparr>"
  note h1 = closed_modal_no_entry
  have h2: "getApiKey (modal_storage closed_modal) = Some [0x006B]"
    by (simp add: closed_modal_def keyed_storage_key)
  have no_entry: "keyed_storage (cacheKey ?t) = None"
    using h1 by (simp add: closed_modal_def)
  have literal: "completion_attempt sample_parse keyed_storage
      (Http_error (Some MISSING_API_KEY) []) = Inl (Error MISSING_API_KEY)"
    using MISSING_API_KEY_not_empty
    by (simp add: completion_attempt_def callDeepSeek_def keyed_storage_key)
  have completed: "completion_attempt sample_parse keyed_storage (Completion scored_json None)
      = Inr \<lparr>data = scored_analysis, usage = None\<rparr>"
    by (simp add: completion_attempt_def callDeepSeek_def keyed_storage_key
        sample_codec_scored)
  have not_missing: "\<not> is_missing_key TypeError" by (simp add: is_missing_key_def)
  have s1: "user_step sample_parse sample_stringify (Open_modal generated_item) closed_modal
      = closed_modal\<lparr>modal_loading := True, pending_calls := [?call True],
                     analysis_calls := 1\<rparr>"
    by (rule closed_modal_opened)
  have m: "user_step sample_parse sample_stringify
        (Call_settles 0 (Http_error (Some MISSING_API_KEY) []))
        (closed_modal\<lparr>modal_loading := True, pending_calls := [?call True],
                      analysis_calls := 1\<rparr>)
      = closed_modal\<lparr>modal_loading := False, pending_calls := [],
                      analysis_calls := 1, modal_error := Some MISSING_KEY\<rparr>"
    using effect_settle_missing_key
      [where parse = sample_parse and call = "?call True"
         and reply = "Http_error (Some MISSING_API_KEY) []" and e = "Error MISSING_API_KEY"
         and stringify = sample_stringify]
      literal is_missing_key_literal
    by (simp add: closed_modal_def)
  have s2: "user_step sample_parse sample_stringify Close_modal
        (closed_modal\<lparr>modal_loading := True, pending_calls := [?call True],
                      analysis_calls := 1\<rparr>) = ?idle"
    by (simp add: unmount_def closed_modal_def)
  have s3: "user_step sample_parse sample_stringify (Open_modal generated_item) ?idle = ?again"
    using effect_begin_miss [where st = ?idle and tr = generated_item and parse = sample_parse]
      no_entry
    by simp
  have s4: "user_step sample_parse sample_stringify (Call_settles 1 Fetch_rejected) ?again
      = ?cached"
    using effect_settle_fallback
      [where parse = sample_parse and call = "?call True" and reply = Fetch_rejected
         and e = TypeError and stringify = sample_stringify]
      keyed_storage_rejected [of sample_parse] not_missing
    by (simp add: cache_put_def sample_stringify_def)
  have s5: "user_step sample_parse sample_stringify
        (Call_settles 0 (Completion scored_json None)) ?cached = ?late"
    using effect_settle_success
      [where parse = sample_parse and call = "?call False"
         and reply = "Completion scored_json None" and stringify = sample_stringify
         and response = "\<lparr>data = scored_analysis, usage = None\<rparr>"]
      completed
    by (simp add: cache_put_def sample_codec_scored)
  have s6: "user_step sample_parse sample_stringify Close_modal ?late = ?closed"
    by (simp add: unmount_def)
  have s7: "user_step sample_parse sample_stringify (Open_modal generated_item) ?closed
      = ?served"
    using effect_begin_hit
      [where st = ?closed and tr = generated_item and parse = sample_parse
         and s = scored_json and a = scored_analysis]
      sample_codec_scored
    by simp
  have c1: "user_run sample_parse sample_stringify
        [Open_modal generated_item, Call_settles 0 (Http_error (Some MISSING_API_KEY) [])]
        closed_modal
      = closed_modal\<lparr>modal_loading := False, pending_calls := [],
                      analysis_calls := 1, modal_error := Some MISSING_KEY\<rparr>"
    by (simp only: user_run_def fold_simps id_apply comp_apply s1 m)
  have c2: "user_run sample_parse sample_stringify
        [Open_modal generated_item, Close_modal, Open_modal generated_item,
         Call_settles 1 Fetch_rejected]
        closed_modal = ?cached"
    by (simp only: user_run_def fold_simps id_apply comp_apply s1 s2 s3 s4)
  have c3: "user_run sample_parse sample_stringify
        [Open_modal generated_item, Close_modal, Open_modal generated_item,
         Call_settles 1 Fetch_rejected, Call_settles 0 (Completion scored_json None),
         Close_modal, Open_modal generated_item]
        closed_modal = ?served"
    by (simp only: user_run_def fold_simps id_apply comp_apply s1 s2 s3 s4 s5 s6 s7)
  have e1: "modal_storage
        (user_run sample_parse sample_stringify
           [Open_modal generated_item, Call_settles 0 (Http_error (Some MISSING_API_KEY) [])]
           closed_modal)
        (cacheKey (title generated_item)) = None"
    unfolding c1 using h1 by simp
  have e2: "modal_error
        (user_run sample_parse sample_stringify
           [Open_modal generated_item, Call_settles 0 (Http_error (Some MISSING_API_KEY) [])]
           closed_modal) = Some MISSING_KEY"
    unfolding c1 by simp
  have e3: "modal_storage
        (user_run sample_parse sample_stringify
           [Open_modal generated_item, Close_modal, Open_modal generated_item,
            Call_settles 1 Fetch_rejected]
           closed_modal)
        (cacheKey (title generated_item)) = Some fallback_json"
    unfolding c2 by simp
  have e4: "modal_analysis
        (user_run sample_parse sample_stringify
           [Open_modal generated_item, Close_modal, Open_modal generated_item,
            Call_settles 1 Fetch_rejected]
           closed_modal) = Some fallback_analysis"
    unfolding c2 by simp
  have e5: "modal_analysis
        (user_run sample_parse sample_stringify
           [Open_modal generated_item, Close_modal, Open_modal generated_item,
            Call_settles 1 Fetch_rejected, Call_settles 0 (Completion scored_json None),
            Close_modal, Open_modal generated_item]
           closed_modal) = Some scored_analysis"
    unfolding c3 by simp
  have e6: "analysis_calls
        (user_run sample_parse sample_stringify
           [Open_modal generated_item, Close_modal, Open_modal generated_item,
            Call_settles 1 Fetch_rejected, Call_settles 0 (Completion scored_json None),
            Close_modal, Open_modal generated_item]
           closed_modal) = 2"
    unfolding c3 by simp
  from h1 h2 e1 e2 e3 e4 e5 e6 sample_codec_scored(4) show ?thesis by (intro conjI)
qed

section \<open>Overlapping refreshes\<close>

text \<open>
  Claim C9 does not hold of the code. After the first load the user clicks the refresh
  button, so that \<^verbatim>\<open>refreshing\<close> is set and one call of \<^verbatim>\<open>fetchTrends\<close> is in
  flight. The interval timer then fires: its \<^verbatim>\<open>loadTrends\<close> does not return at once
  but changes the state and starts a second call. Indeed the timer's \<^verbatim>\<open>loadTrends\<close>
  starts a call in every state.
\<close>

theorem loadTrends_overlap:
  "refreshing (app_run [Mount, Settle (Inr placeholder_trends), Click] initial_state)
   \<and> in_flight (app_run [Mount, Settle (Inr placeholder_trends), Click] initial_state) = 1
   \<and> in_flight (app_run [Mount, Settle (Inr placeholder_trends), Click, Tick] initial_state) = 2
   \<and> app_run [Mount, Settle (Inr placeholder_trends), Click, Tick] initial_state
       \<noteq> app_run [Mount, Settle (Inr placeholder_trends), Click] initial_state
   \<and> (\<forall>st. in_flight (app_step Tick st) = in_flight st + 1)"
  by (simp add: app_run_def loadTrends_begin_def loadTrends_settle_def initial_state_def)

end
